theory Spec2Isabelle
  imports Main "HOL-Library.Multiset"
begin

section \<open>JavaScript values\<close>

text \<open>
  The module \<^verbatim>\<open>src/i18n.js\<close> ships two near-identical variants of the same code: a
  singleton that keeps its configuration in module-level variables (lines 1-307) and a
  class-based one that keeps it in the fields of an instance (lines 308-593). Both are
  embedded by the same definitions; where the two texts differ, the definition takes the
  variant as an argument.
\<close>

datatype variant = Singleton | ClassBased

text \<open>
  A function value is known by what it is: one of the two closures that
  \<^verbatim>\<open>loadLanguage\<close> attaches to the locale loaded under a language code
  (\<^verbatim>\<open>locale.__\<close> and \<^verbatim>\<open>locale._n\<close>), or a function of the host application.
\<close>

datatype fnref = LocaleTr string | LocaleTrn string | UserFn nat

text \<open>
  Numbers are the integers and \<^verbatim>\<open>NaN\<close>; an object is the list of its own enumerable
  properties in insertion order.
\<close>

datatype jsval =
    JUndefined
  | JNull
  | JBool bool
  | JNum int
  | JNaN
  | JStr string
  | JFun fnref
  | JObj "(string \<times> jsval) list"

text \<open>ToBoolean: what \<^verbatim>\<open>if (v)\<close>, \<^verbatim>\<open>!v\<close> and \<^verbatim>\<open>a && b\<close> test.\<close>

fun truthy :: "jsval \<Rightarrow> bool" where
  "truthy JUndefined = False"
| "truthy JNull = False"
| "truthy (JBool b) = b"
| "truthy (JNum n) = (n \<noteq> 0)"
| "truthy JNaN = False"
| "truthy (JStr s) = (s \<noteq> [])"
| "truthy (JFun f) = True"
| "truthy (JObj ps) = True"

text \<open>\<^verbatim>\<open>_.compact(array)\<close>: a copy of the array with all falsy values removed.\<close>

definition compact :: "jsval list \<Rightarrow> jsval list" where
  "compact array = filter truthy array"

text \<open>Reading \<^verbatim>\<open>arguments[i]\<close>: \<^verbatim>\<open>undefined\<close> past the end.\<close>

definition arg :: "nat \<Rightarrow> jsval list \<Rightarrow> jsval" where
  "arg i arguments = (if i < length arguments then arguments ! i else JUndefined)"

section \<open>The argument lists of the translation helpers\<close>

text \<open>
  \<^verbatim>\<open>locale.__\<close>, lines 194-199 and 498-503:
  \<^verbatim>\<open>
  var args = Array.prototype.slice.call(arguments).slice(0);
  if (args.length >= 2) {
    args[0] = null;
    args[args.length - 1] = null;
    args = _.compact(args);
  }
  \<close>
  Both writes are in range, since the array has at least two elements.
\<close>

definition tr_args :: "jsval list \<Rightarrow> jsval list" where
  "tr_args arguments =
     (let args = arguments in
      if length args \<ge> 2
      then compact ((args[0 := JNull])[length args - 1 := JNull])
      else args)"

text \<open>
  \<^verbatim>\<open>locale._n\<close>, lines 228-234 and 532-538:
  \<^verbatim>\<open>
  var args = Array.prototype.slice.call(arguments).slice(0);
  if (args.length >= 4) {
    args[0] = null;
    args[1] = null;
    args[args.length - 1] = null;
    args = _.compact(args);
  }
  \<close>
\<close>

definition trn_args :: "jsval list \<Rightarrow> jsval list" where
  "trn_args arguments =
     (let args = arguments in
      if length args \<ge> 4
      then compact (((args[0 := JNull])[1 := JNull])[length args - 1 := JNull])
      else args)"

section \<open>Configuration data\<close>

text \<open>
  An entry of the language registry, \<^verbatim>\<open>languages[code]\<close>. The code reads its
  \<^verbatim>\<open>name\<close> and \<^verbatim>\<open>plurals\<close> properties; a property that is not there reads as
  \<^verbatim>\<open>undefined\<close>. \<open>NotAnObject\<close> stands for an entry that is a primitive value: it is
  falsy, or its \<^verbatim>\<open>name\<close> reads as \<^verbatim>\<open>undefined\<close>, so the test of line 114 fails for it
  either way.
\<close>

datatype lang_entry = NotAnObject | LangConfig jsval jsval

type_synonym registry = "(string \<times> lang_entry) list"

text \<open>
  The options object of \<^verbatim>\<open>configure\<close> and of the constructor. \<open>opt_languages\<close> is
  \<open>None\<close> when \<^verbatim>\<open>typeof options.languages\<close> is not \<^verbatim>\<open>'object'\<close>, and otherwise the
  object's properties in the order of \<^verbatim>\<open>Object.keys\<close>. (\<^verbatim>\<open>null\<close>, whose typeof is
  \<^verbatim>\<open>'object'\<close> as well and on which \<^verbatim>\<open>Object.keys\<close> throws, is not represented.)
\<close>

record options =
  opt_defaultLocale :: jsval
  opt_languages :: "registry option"
  opt_pathToTranslations :: jsval
  opt_logDebugFn :: jsval
  opt_logInfoFn :: jsval
  opt_logWarnFn :: jsval
  opt_logErrorFn :: jsval

text \<open>
  A log function: one of the four built-in loggers \<^verbatim>\<open>require('debug')(namespace)\<close>
  of lines 18-21, a function handed in through the options, or the free identifier
  \<^verbatim>\<open>Logger\<close> that the singleton's catch handlers name (lines 209, 243, 250).
\<close>

datatype logger = BuiltinLogger string | CustomLogger fnref | GlobalLogger

definition logger_option :: "jsval \<Rightarrow> string \<Rightarrow> logger" where
  "logger_option v namespace =
     (case v of JFun f \<Rightarrow> CustomLogger f | _ \<Rightarrow> BuiltinLogger namespace)"

section \<open>Locale objects\<close>

text \<open>
  The object that \<^verbatim>\<open>new Jed(data)\<close> builds (lines 156-172): the parsed PO data, and the
  block stored under \<^verbatim>\<open>data.locale_data.the_domain['']\<close>, whose \<^verbatim>\<open>lang\<close> is the code and
  whose \<^verbatim>\<open>plural_forms\<close> is the third argument of \<^verbatim>\<open>loadLanguage\<close> (\<^verbatim>\<open>initialize\<close>
  passes the whole registry entry there).
\<close>

record 'd jed =
  po :: 'd
  lang :: string
  plural_forms :: lang_entry

text \<open>
  A \<^verbatim>\<open>new\<close> expression evaluates to an object, never to a falsy value. The variable
  \<^verbatim>\<open>locale\<close> of line 172 is modelled as an optional object so that the test
  \<^verbatim>\<open>if (locale)\<close> of lines 173, 202 and 236 stays a test. (A constructor that throws
  is outside the model.)
\<close>

definition new_Jed :: "'d \<Rightarrow> string \<Rightarrow> lang_entry \<Rightarrow> 'd jed option" where
  "new_Jed d c plurals = Some \<lparr>po = d, lang = c, plural_forms = plurals\<rparr>"

text \<open>
  The locale object once \<^verbatim>\<open>loadLanguage\<close> is done with it: the Jed object, its
  \<^verbatim>\<open>code\<close> property, and the two attached closures. Both closures have one free
  variable, \<^verbatim>\<open>locale\<close>; \<open>closure_locale\<close> is the value they captured.
\<close>

record 'd loaded_locale =
  jed :: "'d jed"
  code :: string
  closure_locale :: "'d jed option"

section \<open>The environment\<close>

datatype exn = Error string | ReferenceError string | TypeError string

text \<open>
  What the code calls and does not define: the process, the file system and the
  libraries \<^verbatim>\<open>path\<close>, \<^verbatim>\<open>po2json\<close>, \<^verbatim>\<open>jed\<close> and \<^verbatim>\<open>sprintf\<close>.
  \<^item> \<open>parseFile\<close> is the outcome of \<^verbatim>\<open>po2json.parseFile(poFile, {format: 'jed'}, cb)\<close>:
    the error handed to the callback (as it prints), or the data;
  \<^item> \<open>fetch l t args\<close> is \<^verbatim>\<open>locale.translate(t).fetch(args)\<close> on the Jed object \<open>l\<close>;
  \<^item> \<open>fetch_plural l s n p args\<close> is \<^verbatim>\<open>locale.translate(s).ifPlural(n, p).fetch(args)\<close>;
  \<^item> \<open>vsprintf t args\<close> is \<^verbatim>\<open>vsprintf(t, args)\<close>;
  \<^item> \<open>global_Logger\<close> tells whether the host has defined a global \<^verbatim>\<open>Logger\<close>.
  A call that throws returns \<open>Inl\<close>.
\<close>

record 'd env =
  cwd :: string
  path_join :: "string \<Rightarrow> string \<Rightarrow> string"
  existsSync :: "string \<Rightarrow> bool"
  parseFile :: "string \<Rightarrow> string + 'd"
  fetch :: "'d jed \<Rightarrow> jsval \<Rightarrow> jsval list \<Rightarrow> exn + jsval"
  fetch_plural :: "'d jed \<Rightarrow> jsval \<Rightarrow> jsval \<Rightarrow> jsval \<Rightarrow> jsval list \<Rightarrow> exn + jsval"
  vsprintf :: "jsval \<Rightarrow> jsval list \<Rightarrow> exn + jsval"
  global_Logger :: bool

section \<open>Log messages and events\<close>

text \<open>The errors handed to \<^verbatim>\<open>done\<close> (lines 124, 128, 152, 265).\<close>

datatype errval =
    NoPluralInformation string
  | CouldNotLocate string
  | ParseError string string
  | UnknownError string

text \<open>
  The messages, by the line that builds them:
  \<^item> \<open>NoLanguagesDefined\<close>: \<^verbatim>\<open>'No languages defined, nothing to handle'\<close> (54, 363);
  \<^item> \<open>LoadingFrom name file\<close>: \<^verbatim>\<open>'Loading i18n for ' + info.name + ' from ' + file\<close> (118);
  \<^item> \<open>ErrorLoading err\<close>: \<^verbatim>\<open>'Error loading i18n: ' + err\<close> (135);
  \<^item> \<open>FinishedLoading\<close>: \<^verbatim>\<open>'Finished loading i18n'\<close> (137);
  \<^item> \<open>LoadingFinishedFor code\<close>: \<^verbatim>\<open>'Loading Finished i18n for ' + code\<close> (260);
  \<^item> \<open>UsingDefault\<close>: the message of line 282 (singleton) or 586 (class-based);
  \<^item> \<open>Raised err\<close>: the caught exception, logged by a catch handler.
\<close>

datatype lang_arg = NoLanguage | Language string

datatype msg =
    NoLanguagesDefined
  | LoadingFrom jsval string
  | ErrorLoading errval
  | FinishedLoading
  | LoadingFinishedFor string
  | UsingDefault lang_arg
  | Raised exn

text \<open>
  What can be observed of a run: a call of a log function, a call of \<^verbatim>\<open>done\<close> by the
  iterator of \<^verbatim>\<open>initialize\<close> for a language code, and a call of the callback that was
  given to \<^verbatim>\<open>initialize\<close>.
\<close>

datatype event =
    Logged logger msg
  | Done string "errval option"
  | Called fnref "errval option"

section \<open>The translation helpers\<close>

text \<open>Which parts of a helper's body a call went through.\<close>

datatype branch = Catalog | Fallback | CatchHandler

record call =
  visited :: "branch list"
  logged :: "event list"
  returned :: "exn + jsval"

text \<open>
  \<^verbatim>\<open>locale.__\<close>, lines 193-214 and 497-518, as a function of the captured \<^verbatim>\<open>locale\<close>
  and of the \<^verbatim>\<open>arguments\<close>:
  \<^verbatim>\<open>
  var translated = null;
  if (locale) {
    translated = locale.translate(text).fetch(args);
  } else {
    try {
      translated = vsprintf(text, args);
    } catch (err) {
      Logger.error(err);        // class-based: that.logErrorFn(err);
      translated = text;
    }
  }
  return translated;
  \<close>
  An exception of the first branch is not caught. In the singleton, \<^verbatim>\<open>Logger\<close> is not
  declared anywhere in the module: evaluating it throws a ReferenceError unless the host
  defines it globally.
\<close>

definition catch_handler ::
  "variant \<Rightarrow> 'd env \<Rightarrow> logger \<Rightarrow> exn \<Rightarrow> jsval \<Rightarrow> call" where
  "catch_handler v e logErrorFn_now err original =
     (case v of
        ClassBased \<Rightarrow>
          \<lparr>visited = [Fallback, CatchHandler],
           logged = [Logged logErrorFn_now (Raised err)],
           returned = Inr original\<rparr>
      | Singleton \<Rightarrow>
          (if global_Logger e
           then \<lparr>visited = [Fallback, CatchHandler],
                 logged = [Logged GlobalLogger (Raised err)],
                 returned = Inr original\<rparr>
           else \<lparr>visited = [Fallback, CatchHandler],
                 logged = [],
                 returned = Inl (ReferenceError ''Logger is not defined'')\<rparr>))"

definition tr ::
  "variant \<Rightarrow> 'd env \<Rightarrow> logger \<Rightarrow> 'd jed option \<Rightarrow> jsval list \<Rightarrow> call" where
  "tr v e logErrorFn_now captured arguments =
     (let txt = arg 0 arguments;
          args = tr_args arguments in
      case captured of
        Some l \<Rightarrow> \<lparr>visited = [Catalog], logged = [], returned = fetch e l txt args\<rparr>
      | None \<Rightarrow>
          (case vsprintf e txt args of
             Inr translated \<Rightarrow>
               \<lparr>visited = [Fallback], logged = [], returned = Inr translated\<rparr>
           | Inl err \<Rightarrow> catch_handler v e logErrorFn_now err txt))"

text \<open>
  \<^verbatim>\<open>locale._n\<close>, lines 227-256 and 531-560. The fallback branch formats \<^verbatim>\<open>sText\<close>
  when \<^verbatim>\<open>number === 1\<close> and \<^verbatim>\<open>pText\<close> otherwise.
\<close>

definition trn ::
  "variant \<Rightarrow> 'd env \<Rightarrow> logger \<Rightarrow> 'd jed option \<Rightarrow> jsval list \<Rightarrow> call" where
  "trn v e logErrorFn_now captured arguments =
     (let sText = arg 0 arguments;
          pText = arg 1 arguments;
          number = arg 2 arguments;
          args = trn_args arguments in
      case captured of
        Some l \<Rightarrow>
          \<lparr>visited = [Catalog], logged = [],
           returned = fetch_plural e l sText number pText args\<rparr>
      | None \<Rightarrow>
          (if number = JNum 1
           then (case vsprintf e sText args of
                   Inr translated \<Rightarrow>
                     \<lparr>visited = [Fallback], logged = [], returned = Inr translated\<rparr>
                 | Inl err \<Rightarrow> catch_handler v e logErrorFn_now err sText)
           else (case vsprintf e pText args of
                   Inr translated \<Rightarrow>
                     \<lparr>visited = [Fallback], logged = [], returned = Inr translated\<rparr>
                 | Inl err \<Rightarrow> catch_handler v e logErrorFn_now err pText)))"

section \<open>State\<close>

text \<open>
  \<^verbatim>\<open>defaultLocale\<close> holds the string that \<^verbatim>\<open>configure\<close> stored (line 30), or the locale
  object that line 180 stored.
\<close>

datatype 'd default_val = DefaultCode string | DefaultObject "'d loaded_locale"

fun default_truthy :: "'d default_val \<Rightarrow> bool" where
  "default_truthy (DefaultCode s) = (s \<noteq> [])"
| "default_truthy (DefaultObject l) = True"

text \<open>
  A call \<^verbatim>\<open>po2json.parseFile(poFile, {format: 'jed'}, cb)\<close> that has not called back yet,
  with what its callback captured: the arguments of \<^verbatim>\<open>loadLanguage\<close> and, through
  \<^verbatim>\<open>done\<close>, the \<^verbatim>\<open>async.each\<close> call it belongs to.
\<close>

record task =
  t_code :: string
  t_plurals :: lang_entry
  t_poFile :: string
  t_join :: nat

text \<open>
  One call of \<^verbatim>\<open>async.each(arr, iterator, callback)\<close>. The library is a dependency
  and not part of the repository; it is modelled from its documented contract: the
  iterator is applied to every item; if an iterator reports an error, the final
  callback is called at once with that error and never again; otherwise it is called,
  with no error, when every item has reported. \<open>live\<close> tells that the final callback
  has not been called with an error yet.
\<close>

record join =
  n_items :: nat
  completed :: nat
  live :: bool
  callback :: jsval

text \<open>What outlives a call of \<^verbatim>\<open>configure\<close>: the calls in flight and what was observed.\<close>

record runtime =
  pending :: "task list"
  joins :: "join list"
  trace :: "event list"

text \<open>
  The module-level variables of line 22 (the fields of the instance, lines 335-360).
  \<^verbatim>\<open>middlewareLocale\<close> is \<^verbatim>\<open>null\<close> or the negotiation middleware built over the
  language codes. \<^verbatim>\<open>loadedLanguages\<close> holds the own properties of the object created by
  \<^verbatim>\<open>{}\<close> in lines 42 and 351; its prototype is \<^verbatim>\<open>Object.prototype\<close>, whose members a
  read finds as well (see \<open>read_locale\<close>). (A language registered under the name
  \<^verbatim>\<open>__proto__\<close>, whose load would replace that prototype, is not represented.)
\<close>

record 'd state = runtime +
  defaultLocale :: "'d default_val"
  languages :: registry
  languageCodes :: "string list"
  pathToTranslations :: string
  loadedLanguages :: "string \<rightharpoonup> 'd loaded_locale"
  middlewareLocale :: "string list option"
  logDebugFn :: logger
  logInfoFn :: logger
  logWarnFn :: logger
  logErrorFn :: logger

definition module_loaded :: runtime where
  "module_loaded = \<lparr>pending = [], joins = [], trace = []\<rparr>"

definition emit :: "event \<Rightarrow> 'd state \<Rightarrow> 'd state" where
  "emit ev st = st\<lparr>trace := trace st @ [ev]\<rparr>"

section \<open>configure\<close>

text \<open>
  Lines 27-57, and the constructor, lines 331-364. The singleton overwrites the module's
  variables and leaves the rest of the run as it is; the constructor is the same function
  on \<open>module_loaded\<close>. The names of an object's properties are distinct, so
  \<^verbatim>\<open>Object.keys(languages)\<close> is the list of the first components.
\<close>

definition configure :: "'d env \<Rightarrow> options \<Rightarrow> 'x runtime_scheme \<Rightarrow> 'd state" where
  "configure e options rt =
     (let langs = (case opt_languages options of Some r \<Rightarrow> r | None \<Rightarrow> []);
          st = \<lparr>pending = pending rt, joins = joins rt, trace = trace rt,
                defaultLocale =
                  DefaultCode (case opt_defaultLocale options of JStr s \<Rightarrow> s | _ \<Rightarrow> ''en''),
                languages = langs,
                languageCodes = map fst langs,
                pathToTranslations =
                  (case opt_pathToTranslations options of
                     JStr s \<Rightarrow> s
                   | _ \<Rightarrow> path_join e (cwd e) ''i18n''),
                loadedLanguages = Map.empty,
                middlewareLocale = None,
                logDebugFn = logger_option (opt_logDebugFn options) ''i18n:debug'',
                logInfoFn = logger_option (opt_logInfoFn options) ''i18n:info'',
                logWarnFn = logger_option (opt_logWarnFn options) ''i18n:warn'',
                logErrorFn = logger_option (opt_logErrorFn options) ''i18n:error''\<rparr>
      in if length (languageCodes st) = 0
         then emit (Logged (logErrorFn st) NoLanguagesDefined) st
         else st)"

section \<open>initialize and loadLanguage\<close>

text \<open>
  The function handed to \<^verbatim>\<open>async.each\<close> as its final callback, lines 132-144.
  Every error this module hands to \<^verbatim>\<open>done\<close> is a non-empty string or an Error object,
  so \<^verbatim>\<open>if (err)\<close> holds exactly when there is one. The callback given to
  \<^verbatim>\<open>initialize\<close> is called when it is a function (\<^verbatim>\<open>_.isFunction(callback)\<close>).
\<close>

definition finished :: "jsval \<Rightarrow> errval option \<Rightarrow> 'd state \<Rightarrow> 'd state" where
  "finished cb err st =
     (let st1 = (case err of
                   Some e \<Rightarrow> emit (Logged (logErrorFn st) (ErrorLoading e)) st
                 | None \<Rightarrow> emit (Logged (logInfoFn st) FinishedLoading) st)
      in case cb of
           JFun f \<Rightarrow> emit (Called f err) st1
         | _ \<Rightarrow> st1)"

text \<open>
  \<^verbatim>\<open>done(err)\<close> for an item of the \<^verbatim>\<open>async.each\<close> call \<open>j\<close>, after the library's
  contract: with an error, the final callback is called with it unless it was called with
  an error before; without, the item counts as completed, and when all items have
  completed the final callback is called without error.
\<close>

definition each_done :: "nat \<Rightarrow> string \<Rightarrow> errval option \<Rightarrow> 'd state \<Rightarrow> 'd state" where
  "each_done j c err st =
     (let st0 = emit (Done c err) st in
      if j < length (joins st0) then
        (let jn = joins st0 ! j in
         case err of
           Some e \<Rightarrow>
             (if live jn
              then (finished (callback jn) (Some e) st0)
                     \<lparr>joins := (joins st0)[j := jn\<lparr>live := False\<rparr>]\<rparr>
              else st0)
         | None \<Rightarrow>
             (let jn1 = jn\<lparr>completed := completed jn + 1\<rparr>;
                  st1 = st0\<lparr>joins := (joins st0)[j := jn1]\<rparr>
              in if completed jn1 \<ge> n_items jn1 \<and> live jn1
                 then finished (callback jn1) None st1
                 else st1))
      else st0)"

text \<open>
  The iterator, lines 111-131. \<^verbatim>\<open>loadLanguage\<close> (line 147) starts with the call of
  \<^verbatim>\<open>po2json.parseFile\<close>, which answers later: the call joins \<open>pending\<close>.
\<close>

definition iterator :: "'d env \<Rightarrow> nat \<Rightarrow> string \<Rightarrow> 'd state \<Rightarrow> 'd state" where
  "iterator e j c st =
     (case map_of (languages st) c of
        Some (LangConfig name plurals) \<Rightarrow>
          (if truthy name \<and> truthy plurals then
             (let file = path_join e (pathToTranslations st) (c @ ''/LC_MESSAGES/messages.po'')
              in if existsSync e file then
                   (emit (Logged (logInfoFn st) (LoadingFrom name file)) st)
                     \<lparr>pending := pending st @
                        [\<lparr>t_code = c, t_plurals = LangConfig name plurals,
                          t_poFile = file, t_join = j\<rparr>]\<rparr>
                 else each_done j c (Some (CouldNotLocate file)) st)
           else each_done j c (Some (NoPluralInformation c)) st)
      | _ \<Rightarrow> each_done j c (Some (NoPluralInformation c)) st)"

text \<open>
  \<^verbatim>\<open>initialize(callback)\<close>, lines 109-145: a new \<^verbatim>\<open>async.each\<close> call over
  \<^verbatim>\<open>languageCodes\<close>. On an empty array the library calls the final callback at once.
\<close>

definition initialize :: "'d env \<Rightarrow> jsval \<Rightarrow> 'd state \<Rightarrow> 'd state" where
  "initialize e cb st =
     (let j = length (joins st);
          st1 = st\<lparr>joins := joins st @
                  [\<lparr>n_items = length (languageCodes st), completed = 0,
                    live = True, callback = cb\<rparr>]\<rparr>
      in if languageCodes st = []
         then finished cb None st1
         else foldl (\<lambda>s c. iterator e j c s) st1 (languageCodes st))"

text \<open>
  The callback of \<^verbatim>\<open>po2json.parseFile\<close>, lines 149-270, for the call \<open>t\<close>. The callback
  that \<^verbatim>\<open>initialize\<close> passes to \<^verbatim>\<open>loadLanguage\<close> is a function, so each
  \<^verbatim>\<open>_.isFunction(callback)\<close> holds.
\<close>

definition loadLanguage_callback :: "'d env \<Rightarrow> task \<Rightarrow> 'd state \<Rightarrow> 'd state" where
  "loadLanguage_callback e t st =
     (case parseFile e (t_poFile t) of
        Inl err \<Rightarrow> each_done (t_join t) (t_code t) (Some (ParseError (t_code t) err)) st
      | Inr d \<Rightarrow>
          (case new_Jed d (t_code t) (t_plurals t) of
             Some l \<Rightarrow>
               (let loc = \<lparr>jed = l, code = t_code t, closure_locale = Some l\<rparr>;
                    st1 = st\<lparr>loadedLanguages := (loadedLanguages st)(t_code t \<mapsto> loc)\<rparr>;
                    st2 = (if \<not> default_truthy (defaultLocale st1)
                           then st1\<lparr>defaultLocale := DefaultObject loc\<rparr>
                           else st1);
                    st3 = emit (Logged (logInfoFn st2) (LoadingFinishedFor (t_code t))) st2
                in each_done (t_join t) (t_code t) None st3)
           | None \<Rightarrow>
               each_done (t_join t) (t_code t) (Some (UnknownError (t_code t))) st))"

text \<open>The \<open>i\<close>-th call in flight calls back.\<close>

definition resolve :: "'d env \<Rightarrow> nat \<Rightarrow> 'd state \<Rightarrow> 'd state" where
  "resolve e i st =
     (if i < length (pending st)
      then loadLanguage_callback e (pending st ! i)
             (st\<lparr>pending := take i (pending st) @ drop (Suc i) (pending st)\<rparr>)
      else st)"

section \<open>getLocaleForLanguage\<close>

text \<open>
  The names of the members of \<^verbatim>\<open>Object.prototype\<close>, which every object created by
  \<^verbatim>\<open>{}\<close> inherits. Each is a function, or (for \<^verbatim>\<open>__proto__\<close>) the prototype object
  itself: a truthy value.
\<close>

definition object_prototype :: "string list" where
  "object_prototype =
     [''constructor'', ''toString'', ''toLocaleString'', ''valueOf'', ''hasOwnProperty'',
      ''isPrototypeOf'', ''propertyIsEnumerable'', ''__proto__'', ''__defineGetter__'',
      ''__defineSetter__'', ''__lookupGetter__'', ''__lookupSetter__'']"

text \<open>
  The values the variable \<^verbatim>\<open>locale\<close> of lines 274 and 578 takes: \<^verbatim>\<open>null\<close>, a locale
  object, the string held by \<^verbatim>\<open>defaultLocale\<close>, the member of \<^verbatim>\<open>Object.prototype\<close> of
  a given name, or \<^verbatim>\<open>undefined\<close> (a property that is not there).
\<close>

datatype 'd resolved =
    NullValue
  | LocaleObject "'d loaded_locale"
  | StringValue string
  | InheritedValue string
  | UndefinedValue

fun resolved_truthy :: "'d resolved \<Rightarrow> bool" where
  "resolved_truthy NullValue = False"
| "resolved_truthy (LocaleObject l) = True"
| "resolved_truthy (StringValue s) = (s \<noteq> [])"
| "resolved_truthy (InheritedValue k) = True"
| "resolved_truthy UndefinedValue = False"

text \<open>
  \<^verbatim>\<open>loadedLanguages[key]\<close>: the own property of that name if there is one, else the
  member that the object inherits under that name, else \<^verbatim>\<open>undefined\<close>.
\<close>

definition read_locale :: "(string \<rightharpoonup> 'd loaded_locale) \<Rightarrow> string \<Rightarrow> 'd resolved" where
  "read_locale m k =
     (case m k of
        Some l \<Rightarrow> LocaleObject l
      | None \<Rightarrow> if k \<in> set object_prototype then InheritedValue k else UndefinedValue)"

fun default_value :: "'d default_val \<Rightarrow> 'd resolved" where
  "default_value (DefaultCode s) = StringValue s"
| "default_value (DefaultObject l) = LocaleObject l"

text \<open>
  The property name that \<^verbatim>\<open>that.loadedLanguages[that.defaultLocale]\<close> (line 585) reads:
  the string itself, or what an object without a \<^verbatim>\<open>toString\<close> of its own prints as.
\<close>

fun property_key :: "'d default_val \<Rightarrow> string" where
  "property_key (DefaultCode s) = s"
| "property_key (DefaultObject l) = ''[object Object]''"

text \<open>
  Lines 273-286 and 577-590. The argument is a language code (a string) or absent.
  \<^verbatim>\<open>
  var locale = null;
  if (code && loadedLanguages[code]) { locale = loadedLanguages[code]; }
  if (!locale) {
    locale = defaultLocale;      // class-based: that.loadedLanguages[that.defaultLocale]
    logInfoFn(...);              // class-based: that.logDebugFn(...)
  }
  return locale;
  \<close>
\<close>

definition getLocaleForLanguage ::
  "variant \<Rightarrow> lang_arg \<Rightarrow> 'd state \<Rightarrow> 'd resolved \<times> 'd state" where
  "getLocaleForLanguage v c st =
     (let found =
            (case c of
               NoLanguage \<Rightarrow> NullValue
             | Language s \<Rightarrow>
                 (if s \<noteq> [] \<and> resolved_truthy (read_locale (loadedLanguages st) s)
                  then read_locale (loadedLanguages st) s
                  else NullValue))
      in if \<not> resolved_truthy found then
           (case v of
              Singleton \<Rightarrow>
                (default_value (defaultLocale st),
                 emit (Logged (logInfoFn st) (UsingDefault c)) st)
            | ClassBased \<Rightarrow>
                (read_locale (loadedLanguages st) (property_key (defaultLocale st)),
                 emit (Logged (logDebugFn st) (UsingDefault c)) st))
         else (found, st))"

section \<open>The middleware\<close>

text \<open>
  \<^verbatim>\<open>i18n.middleware()\<close>, lines 60-66 and 366-371: the negotiation middleware is built
  on the first call, over the language codes of that moment.
\<close>

definition middleware :: "'d state \<Rightarrow> 'd state" where
  "middleware st =
     (if middlewareLocale st = None
      then st\<lparr>middlewareLocale := Some (languageCodes st)\<rparr>
      else st)"

text \<open>
  Reading \<^verbatim>\<open>locale.__\<close> and \<^verbatim>\<open>locale._n\<close>: the attached closure of a locale object,
  \<^verbatim>\<open>undefined\<close> on a string and on a member of \<^verbatim>\<open>Object.prototype\<close> (neither has
  such a property), a TypeError on \<^verbatim>\<open>null\<close> and \<^verbatim>\<open>undefined\<close>.
\<close>

fun read_tr :: "'d resolved \<Rightarrow> exn + jsval" where
  "read_tr (LocaleObject l) = Inr (JFun (LocaleTr (code l)))"
| "read_tr (StringValue s) = Inr JUndefined"
| "read_tr (InheritedValue k) = Inr JUndefined"
| "read_tr NullValue = Inl (TypeError ''Cannot read property __ of null'')"
| "read_tr UndefinedValue = Inl (TypeError ''Cannot read property __ of undefined'')"

fun read_trn :: "'d resolved \<Rightarrow> exn + jsval" where
  "read_trn (LocaleObject l) = Inr (JFun (LocaleTrn (code l)))"
| "read_trn (StringValue s) = Inr JUndefined"
| "read_trn (InheritedValue k) = Inr JUndefined"
| "read_trn NullValue = Inl (TypeError ''Cannot read property _n of null'')"
| "read_trn UndefinedValue = Inl (TypeError ''Cannot read property _n of undefined'')"

text \<open>
  What the handler leaves on the request and the response (lines 72-80):
  \<^verbatim>\<open>res.locals.locale\<close>, \<^verbatim>\<open>req.tr\<close>, \<^verbatim>\<open>req.__\<close>, \<^verbatim>\<open>req.trn\<close> and \<^verbatim>\<open>req._n\<close>.
\<close>

record 'd request =
  res_locals_locale :: "'d resolved"
  req_tr :: jsval
  req_dunder :: jsval
  req_trn :: jsval
  req_n :: jsval

text \<open>
  The handler, lines 67-104 and 373-410, at a request whose negotiated language
  \<^verbatim>\<open>req.locale\<close> is \<open>c\<close> (the negotiation itself is the library's). Calling
  \<^verbatim>\<open>middlewareLocale\<close> while it is \<^verbatim>\<open>null\<close> throws.
\<close>

definition handle_request ::
  "variant \<Rightarrow> lang_arg \<Rightarrow> 'd state \<Rightarrow> (exn + 'd request) \<times> 'd state" where
  "handle_request v c st =
     (case middlewareLocale st of
        None \<Rightarrow> (Inl (TypeError ''middlewareLocale is not a function''), st)
      | Some supported \<Rightarrow>
          (let (loc, st1) = getLocaleForLanguage v c st in
           case read_tr loc of
             Inl x \<Rightarrow> (Inl x, st1)
           | Inr t \<Rightarrow>
               (case read_trn loc of
                  Inl x \<Rightarrow> (Inl x, st1)
                | Inr n \<Rightarrow>
                    (Inr \<lparr>res_locals_locale = loc, req_tr = t, req_dunder = t,
                          req_trn = n, req_n = n\<rparr>, st1))))"

text \<open>
  The second argument of \<^verbatim>\<open>res.render(view, options, callback)\<close>: left out, a function,
  or an object. A function and an object come with the properties that \<^verbatim>\<open>for (key in
  options)\<close> enumerates, in that order with their values: the enumerable properties, own
  and inherited. These are what \<^verbatim>\<open>_.extend\<close> copies.
\<close>

datatype render_options =
    NoOptions
  | FunctionOptions fnref "(string \<times> jsval) list"
  | ObjectOptions "(string \<times> jsval) list"

fun enumerable_properties :: "render_options \<Rightarrow> (string \<times> jsval) list" where
  "enumerable_properties NoOptions = []"
| "enumerable_properties (FunctionOptions f ps) = ps"
| "enumerable_properties (ObjectOptions ps) = ps"

text \<open>\<^verbatim>\<open>obj[k] = v\<close> on a list of properties.\<close>

fun assign :: "(string \<times> jsval) list \<Rightarrow> string \<Rightarrow> jsval \<Rightarrow> (string \<times> jsval) list" where
  "assign [] k v = [(k, v)]"
| "assign ((k', v') # ps) k v =
     (if k' = k then (k, v) # ps else (k', v') # assign ps k v)"

text \<open>
  \<^verbatim>\<open>_.extend(obj, source)\<close>: every property that \<^verbatim>\<open>for ... in\<close> enumerates on the source
  is assigned to \<open>obj\<close>.
\<close>

definition extend_object ::
  "(string \<times> jsval) list \<Rightarrow> (string \<times> jsval) list \<Rightarrow> (string \<times> jsval) list" where
  "extend_object obj source = foldl (\<lambda>acc (k, v). assign acc k v) obj source"

text \<open>
  The function stored in \<^verbatim>\<open>res.render\<close>, lines 84-100 and 390-406, for the resolved
  \<^verbatim>\<open>locale\<close>. The result is the argument list handed to the original render function
  (bound to the response).
  \<^verbatim>\<open>
  if (callback === undefined && _.isFunction(options)) { callback = options; options = {}; }
  var helpers = { tr: locale.__, __: locale.__, trn: locale._n, _n: locale._n };
  options = _.extend({}, options, {helpers: helpers});
  originalRender.bind(res)(view, options, callback);
  \<close>
\<close>

definition render ::
  "'d resolved \<Rightarrow> jsval \<Rightarrow> render_options \<Rightarrow> jsval \<Rightarrow>
     exn + (jsval \<times> (string \<times> jsval) list \<times> jsval)" where
  "render loc view options cb =
     (let (cb1, options1) =
            (case options of
               FunctionOptions f ps \<Rightarrow>
                 (if cb = JUndefined then (JFun f, ObjectOptions []) else (cb, options))
             | _ \<Rightarrow> (cb, options))
      in case read_tr loc of
           Inl x \<Rightarrow> Inl x
         | Inr t \<Rightarrow>
             (case read_trn loc of
                Inl x \<Rightarrow> Inl x
              | Inr n \<Rightarrow>
                  (let helpers = JObj [(''tr'', t), (''__'', t), (''trn'', n), (''_n'', n)];
                       options2 =
                         extend_object (extend_object [] (enumerable_properties options1))
                           [(''helpers'', helpers)]
                   in Inr (view, options2, cb1))))"

section \<open>Runs\<close>

text \<open>
  What the host application can do, and \<open>Resolve i\<close>: the \<open>i\<close>-th file read in flight
  calls back. A second \<^verbatim>\<open>configure\<close> overwrites the singleton's variables; a second
  \<^verbatim>\<open>new I18n(options)\<close> makes another instance and leaves this one as it is.
\<close>

datatype op =
    Configure options
  | Initialize jsval
  | Resolve nat
  | GetLocaleForLanguage lang_arg
  | Middleware
  | Request lang_arg

fun step :: "variant \<Rightarrow> 'd env \<Rightarrow> op \<Rightarrow> 'd state \<Rightarrow> 'd state" where
  "step v e (Configure options) st =
     (case v of Singleton \<Rightarrow> configure e options st | ClassBased \<Rightarrow> st)"
| "step v e (Initialize cb) st = initialize e cb st"
| "step v e (Resolve i) st = resolve e i st"
| "step v e (GetLocaleForLanguage c) st = snd (getLocaleForLanguage v c st)"
| "step v e Middleware st = middleware st"
| "step v e (Request c) st = snd (handle_request v c st)"

fun run :: "variant \<Rightarrow> 'd env \<Rightarrow> op list \<Rightarrow> 'd state \<Rightarrow> 'd state" where
  "run v e [] st = st"
| "run v e (x # xs) st = run v e xs (step v e x st)"


fun is_Configure :: "op \<Rightarrow> bool" where
  "is_Configure (Configure options) = True"
| "is_Configure x = False"

section \<open>Invariants\<close>


text \<open>
  Every locale object that the state holds (in \<^verbatim>\<open>loadedLanguages\<close>, or as the default
  locale) carries closures whose captured \<^verbatim>\<open>locale\<close> is an object.
\<close>

definition captured_catalogs :: "'d state \<Rightarrow> bool" where
  "captured_catalogs st =
     ((\<forall>c l. loadedLanguages st c = Some l \<longrightarrow> closure_locale l \<noteq> None)
      \<and> (\<forall>l. defaultLocale st = DefaultObject l \<longrightarrow> closure_locale l \<noteq> None))"

section \<open>What a run of initialize shows\<close>

text \<open>The calls of \<^verbatim>\<open>done\<close>, and the calls of the completion callback, in their order.\<close>

fun dones :: "event list \<Rightarrow> (string \<times> errval option) list" where
  "dones [] = []"
| "dones (Done c err # evs) = (c, err) # dones evs"
| "dones (ev # evs) = dones evs"

fun calls :: "event list \<Rightarrow> (fnref \<times> errval option) list" where
  "calls [] = []"
| "calls (Called f err # evs) = (f, err) # calls evs"
| "calls (ev # evs) = calls evs"

text \<open>The first error among the calls of \<^verbatim>\<open>done\<close> so far.\<close>

fun first_error :: "(string \<times> errval option) list \<Rightarrow> errval option" where
  "first_error [] = None"
| "first_error ((c, Some err) # ds) = Some err"
| "first_error ((c, None) # ds) = first_error ds"

text \<open>
  The calls of the completion callback \<open>f\<close> that are due once \<^verbatim>\<open>done\<close> has been called as
  in \<open>ds\<close>, for \<open>n\<close> items: one call with the first error as soon as there is an error;
  else one call without error once all \<open>n\<close> items are done; else none yet.
\<close>

definition expected_calls ::
  "fnref \<Rightarrow> nat \<Rightarrow> (string \<times> errval option) list \<Rightarrow> (fnref \<times> errval option) list" where
  "expected_calls f n ds =
     (case first_error ds of
        Some err \<Rightarrow> [(f, Some err)]
      | None \<Rightarrow> if n \<le> length ds then [(f, None)] else [])"

text \<open>The catalog file of a language code (line 116).\<close>

definition po_file :: "'d env \<Rightarrow> 'd state \<Rightarrow> string \<Rightarrow> string" where
  "po_file e st c = path_join e (pathToTranslations st) (c @ ''/LC_MESSAGES/messages.po'')"

text \<open>
  The iterator starts a file read for the code: its registry entry has a truthy name and
  plural rule, and its catalog file exists. The language loads: moreover the file parses.
\<close>

definition staged :: "'d env \<Rightarrow> 'd state \<Rightarrow> string \<Rightarrow> bool" where
  "staged e st c =
     (case map_of (languages st) c of
        Some (LangConfig name plurals) \<Rightarrow>
          truthy name \<and> truthy plurals \<and> existsSync e (po_file e st c)
      | _ \<Rightarrow> False)"

definition loads :: "'d env \<Rightarrow> 'd state \<Rightarrow> string \<Rightarrow> bool" where
  "loads e st c =
     (staged e st c
      \<and> (case parseFile e (po_file e st c) of Inr d \<Rightarrow> True | Inl err \<Rightarrow> False))"

text \<open>
  The state of the one \<^verbatim>\<open>async.each\<close> call agrees with the calls of \<^verbatim>\<open>done\<close> observed,
  and the completion callback \<open>f\<close> has been called as is due.
\<close>

definition join_inv :: "fnref \<Rightarrow> 'd state \<Rightarrow> bool" where
  "join_inv f st =
     ((\<exists>jn. joins st = [jn]
           \<and> n_items jn = length (languageCodes st)
           \<and> callback jn = JFun f
           \<and> live jn = (first_error (dones (trace st)) = None)
           \<and> (first_error (dones (trace st)) = None \<longrightarrow>
                completed jn = length (dones (trace st))))
      \<and> calls (trace st) =
          expected_calls f (length (languageCodes st)) (dones (trace st)))"

text \<open>Each of the codes \<open>cs\<close> is done or has its file read in flight.\<close>

definition count_inv :: "string list \<Rightarrow> 'd state \<Rightarrow> bool" where
  "count_inv cs st =
     (mset (map fst (dones (trace st))) + mset (map t_code (pending st)) = mset cs)"

text \<open>
  The file reads in flight are those of staged codes; \<^verbatim>\<open>done\<close> was called without error
  exactly for codes that load; only codes that load have a loaded locale, and every
  code done without error has one.
\<close>

definition outcome_inv :: "'d env \<Rightarrow> 'd state \<Rightarrow> bool" where
  "outcome_inv e st =
     ((\<forall>t \<in> set (pending st).
         t_join t = 0 \<and> staged e st (t_code t) \<and> t_poFile t = po_file e st (t_code t))
      \<and> (\<forall>c x. (c, x) \<in> set (dones (trace st)) \<longrightarrow> ((x = None) = loads e st c))
      \<and> (\<forall>c. loadedLanguages st c \<noteq> None \<longrightarrow> loads e st c)
      \<and> (\<forall>c. (c, None) \<in> set (dones (trace st)) \<longrightarrow> loadedLanguages st c \<noteq> None))"


section \<open>Concrete inputs\<close>

text \<open>
  An environment to evaluate the definitions in: the process runs in \<^verbatim>\<open>/srv/app\<close>, every
  catalog file exists and parses (its data is the file's name), and the formatters
  return the template as it is.
\<close>

definition sample_env :: "string env" where
  "sample_env =
     \<lparr>cwd = ''/srv/app'',
      path_join = (\<lambda>a b. a @ ''/'' @ b),
      existsSync = (\<lambda>file. True),
      parseFile = (\<lambda>file. Inr file),
      fetch = (\<lambda>l t args. Inr t),
      fetch_plural = (\<lambda>l s n p args. Inr (if n = JNum 1 then s else p)),
      vsprintf = (\<lambda>t args. Inr t),
      global_Logger = False\<rparr>"

text \<open>
  The same environment with a catalog whose \<^verbatim>\<open>fetch\<close> formats with a sprintf that
  rejects the template \<^verbatim>\<open>50% off\<close> (a percent sign that starts no conversion) when it
  is given arguments, as the sprintf of the Jed library does.
\<close>

definition strict_env :: "string env" where
  "strict_env =
     sample_env\<lparr>fetch := (\<lambda>l t args.
       if args \<noteq> [] \<and> t = JStr ''50% off'' then Inl (Error ''[sprintf] huh?'') else Inr t)\<rparr>"

definition german :: lang_entry where
  "german = LangConfig (JStr ''Deutsch'') (JStr ''nplurals=2; plural=(n != 1)'')"

text \<open>Options that register German and name no default locale and no catalog directory.\<close>

definition sample_options :: options where
  "sample_options =
     \<lparr>opt_defaultLocale = JUndefined,
      opt_languages = Some [(''de'', german)],
      opt_pathToTranslations = JUndefined,
      opt_logDebugFn = JUndefined,
      opt_logInfoFn = JUndefined,
      opt_logWarnFn = JFun (UserFn 1),
      opt_logErrorFn = JFun (UserFn 2)\<rparr>"

definition empty_options :: options where
  "empty_options = sample_options\<lparr>opt_languages := Some []\<rparr>"

definition blank_default_options :: options where
  "blank_default_options = sample_options\<lparr>opt_defaultLocale := JStr []\<rparr>"

text \<open>The locale object that loading German in \<open>sample_env\<close> builds.\<close>

definition german_locale :: "string loaded_locale" where
  "german_locale =
     \<lparr>jed = \<lparr>po = ''/srv/app/i18n/de/LC_MESSAGES/messages.po'', lang = ''de'',
              plural_forms = german\<rparr>,
      code = ''de'',
      closure_locale =
        Some \<lparr>po = ''/srv/app/i18n/de/LC_MESSAGES/messages.po'', lang = ''de'',
              plural_forms = german\<rparr>\<rparr>"

text \<open>
  The singleton after \<^verbatim>\<open>configure\<close>, \<^verbatim>\<open>initialize\<close>, the answer of the one file read
  and \<^verbatim>\<open>middleware()\<close>.
\<close>

definition german_loaded :: "string state" where
  "german_loaded =
     run Singleton sample_env [Initialize JUndefined, Resolve 0, Middleware]
       (configure sample_env sample_options module_loaded)"

text \<open>Options that register one language under \<^verbatim>\<open>fr\<close> instead.\<close>

definition french_options :: options where
  "french_options = sample_options\<lparr>opt_languages := Some [(''fr'', german)]\<rparr>"



text \<open>Options that register an entry without plural rule under \<^verbatim>\<open>xx\<close>, then German.\<close>

definition mixed_options :: options where
  "mixed_options =
     sample_options\<lparr>opt_languages := Some [(''xx'', NotAnObject), (''de'', german)]\<rparr>"

text \<open>
  Options that register German and name it as the default locale, and the class-based
  instance built from them after \<^verbatim>\<open>initialize\<close>, the answer of the file read and
  \<^verbatim>\<open>middleware()\<close>.
\<close>

definition default_german_options :: options where
  "default_german_options = sample_options\<lparr>opt_defaultLocale := JStr ''de''\<rparr>"


section \<open>Frame lemmas\<close>

lemma emit_frame [simp]:
  "pending (emit ev st) = pending st"
  "joins (emit ev st) = joins st"
  "trace (emit ev st) = trace st @ [ev]"
  "defaultLocale (emit ev st) = defaultLocale st"
  "languages (emit ev st) = languages st"
  "languageCodes (emit ev st) = languageCodes st"
  "pathToTranslations (emit ev st) = pathToTranslations st"
  "loadedLanguages (emit ev st) = loadedLanguages st"
  "middlewareLocale (emit ev st) = middlewareLocale st"
  "logDebugFn (emit ev st) = logDebugFn st"
  "logInfoFn (emit ev st) = logInfoFn st"
  "logWarnFn (emit ev st) = logWarnFn st"
  "logErrorFn (emit ev st) = logErrorFn st"
  by (simp_all add: emit_def)

lemma finished_frame [simp]:
  "pending (finished cb err st) = pending st"
  "joins (finished cb err st) = joins st"
  "defaultLocale (finished cb err st) = defaultLocale st"
  "languages (finished cb err st) = languages st"
  "languageCodes (finished cb err st) = languageCodes st"
  "pathToTranslations (finished cb err st) = pathToTranslations st"
  "loadedLanguages (finished cb err st) = loadedLanguages st"
  "middlewareLocale (finished cb err st) = middlewareLocale st"
  "logDebugFn (finished cb err st) = logDebugFn st"
  "logInfoFn (finished cb err st) = logInfoFn st"
  "logWarnFn (finished cb err st) = logWarnFn st"
  "logErrorFn (finished cb err st) = logErrorFn st"
  by (simp_all add: finished_def Let_def split: option.split jsval.split)

lemma each_done_frame [simp]:
  "pending (each_done j c err st) = pending st"
  "defaultLocale (each_done j c err st) = defaultLocale st"
  "languages (each_done j c err st) = languages st"
  "languageCodes (each_done j c err st) = languageCodes st"
  "pathToTranslations (each_done j c err st) = pathToTranslations st"
  "loadedLanguages (each_done j c err st) = loadedLanguages st"
  "middlewareLocale (each_done j c err st) = middlewareLocale st"
  "logDebugFn (each_done j c err st) = logDebugFn st"
  "logInfoFn (each_done j c err st) = logInfoFn st"
  "logWarnFn (each_done j c err st) = logWarnFn st"
  "logErrorFn (each_done j c err st) = logErrorFn st"
  by (simp_all add: each_done_def Let_def split: option.split)

lemma iterator_frame [simp]:
  "defaultLocale (iterator e j c st) = defaultLocale st"
  "languages (iterator e j c st) = languages st"
  "languageCodes (iterator e j c st) = languageCodes st"
  "pathToTranslations (iterator e j c st) = pathToTranslations st"
  "loadedLanguages (iterator e j c st) = loadedLanguages st"
  "middlewareLocale (iterator e j c st) = middlewareLocale st"
  "logDebugFn (iterator e j c st) = logDebugFn st"
  "logInfoFn (iterator e j c st) = logInfoFn st"
  "logWarnFn (iterator e j c st) = logWarnFn st"
  "logErrorFn (iterator e j c st) = logErrorFn st"
  by (simp_all add: iterator_def Let_def split: option.split lang_entry.split)

lemma iterate_frame [simp]:
  "defaultLocale (foldl (\<lambda>s c. iterator e j c s) st cs) = defaultLocale st"
  "languages (foldl (\<lambda>s c. iterator e j c s) st cs) = languages st"
  "languageCodes (foldl (\<lambda>s c. iterator e j c s) st cs) = languageCodes st"
  "pathToTranslations (foldl (\<lambda>s c. iterator e j c s) st cs) = pathToTranslations st"
  "loadedLanguages (foldl (\<lambda>s c. iterator e j c s) st cs) = loadedLanguages st"
  "middlewareLocale (foldl (\<lambda>s c. iterator e j c s) st cs) = middlewareLocale st"
  "logDebugFn (foldl (\<lambda>s c. iterator e j c s) st cs) = logDebugFn st"
  "logInfoFn (foldl (\<lambda>s c. iterator e j c s) st cs) = logInfoFn st"
  "logWarnFn (foldl (\<lambda>s c. iterator e j c s) st cs) = logWarnFn st"
  "logErrorFn (foldl (\<lambda>s c. iterator e j c s) st cs) = logErrorFn st"
  by (induction cs arbitrary: st; simp)+

lemma initialize_frame [simp]:
  "defaultLocale (initialize e cb st) = defaultLocale st"
  "languages (initialize e cb st) = languages st"
  "languageCodes (initialize e cb st) = languageCodes st"
  "pathToTranslations (initialize e cb st) = pathToTranslations st"
  "loadedLanguages (initialize e cb st) = loadedLanguages st"
  "middlewareLocale (initialize e cb st) = middlewareLocale st"
  "logDebugFn (initialize e cb st) = logDebugFn st"
  "logInfoFn (initialize e cb st) = logInfoFn st"
  "logWarnFn (initialize e cb st) = logWarnFn st"
  "logErrorFn (initialize e cb st) = logErrorFn st"
  by (simp_all add: initialize_def Let_def)

lemma loadLanguage_callback_frame [simp]:
  "pending (loadLanguage_callback e t st) = pending st"
  "languages (loadLanguage_callback e t st) = languages st"
  "languageCodes (loadLanguage_callback e t st) = languageCodes st"
  "pathToTranslations (loadLanguage_callback e t st) = pathToTranslations st"
  "middlewareLocale (loadLanguage_callback e t st) = middlewareLocale st"
  "logDebugFn (loadLanguage_callback e t st) = logDebugFn st"
  "logInfoFn (loadLanguage_callback e t st) = logInfoFn st"
  "logWarnFn (loadLanguage_callback e t st) = logWarnFn st"
  "logErrorFn (loadLanguage_callback e t st) = logErrorFn st"
  by (simp_all add: loadLanguage_callback_def new_Jed_def Let_def split: sum.split)

lemma getLocaleForLanguage_frame [simp]:
  "pending (snd (getLocaleForLanguage v c st)) = pending st"
  "joins (snd (getLocaleForLanguage v c st)) = joins st"
  "defaultLocale (snd (getLocaleForLanguage v c st)) = defaultLocale st"
  "languages (snd (getLocaleForLanguage v c st)) = languages st"
  "languageCodes (snd (getLocaleForLanguage v c st)) = languageCodes st"
  "pathToTranslations (snd (getLocaleForLanguage v c st)) = pathToTranslations st"
  "loadedLanguages (snd (getLocaleForLanguage v c st)) = loadedLanguages st"
  "middlewareLocale (snd (getLocaleForLanguage v c st)) = middlewareLocale st"
  "logDebugFn (snd (getLocaleForLanguage v c st)) = logDebugFn st"
  "logInfoFn (snd (getLocaleForLanguage v c st)) = logInfoFn st"
  "logWarnFn (snd (getLocaleForLanguage v c st)) = logWarnFn st"
  "logErrorFn (snd (getLocaleForLanguage v c st)) = logErrorFn st"
  by (simp_all add: getLocaleForLanguage_def Let_def split: variant.split lang_arg.split)

lemma handle_request_frame [simp]:
  "pending (snd (handle_request v c st)) = pending st"
  "joins (snd (handle_request v c st)) = joins st"
  "defaultLocale (snd (handle_request v c st)) = defaultLocale st"
  "languages (snd (handle_request v c st)) = languages st"
  "languageCodes (snd (handle_request v c st)) = languageCodes st"
  "pathToTranslations (snd (handle_request v c st)) = pathToTranslations st"
  "loadedLanguages (snd (handle_request v c st)) = loadedLanguages st"
  "middlewareLocale (snd (handle_request v c st)) = middlewareLocale st"
  "logDebugFn (snd (handle_request v c st)) = logDebugFn st"
  "logInfoFn (snd (handle_request v c st)) = logInfoFn st"
  "logWarnFn (snd (handle_request v c st)) = logWarnFn st"
  "logErrorFn (snd (handle_request v c st)) = logErrorFn st"
  by (simp_all add: handle_request_def Let_def split_beta split: option.split sum.split)

lemma middleware_frame [simp]:
  "pending (middleware st) = pending st"
  "joins (middleware st) = joins st"
  "trace (middleware st) = trace st"
  "defaultLocale (middleware st) = defaultLocale st"
  "languages (middleware st) = languages st"
  "languageCodes (middleware st) = languageCodes st"
  "pathToTranslations (middleware st) = pathToTranslations st"
  "loadedLanguages (middleware st) = loadedLanguages st"
  "logDebugFn (middleware st) = logDebugFn st"
  "logInfoFn (middleware st) = logInfoFn st"
  "logWarnFn (middleware st) = logWarnFn st"
  "logErrorFn (middleware st) = logErrorFn st"
  by (simp_all add: middleware_def)

text \<open>The equations that evaluate a run on concrete inputs.\<close>

lemmas model_defs =
  configure_def initialize_def iterator_def each_done_def finished_def emit_def
  resolve_def loadLanguage_callback_def new_Jed_def logger_option_def module_loaded_def
  getLocaleForLanguage_def read_locale_def middleware_def handle_request_def

lemmas sample_defs =
  sample_env_def sample_options_def german_def german_locale_def empty_options_def
  blank_default_options_def strict_env_def french_options_def mixed_options_def
  default_german_options_def

text \<open>The iterator and the callback of the file read, by cases.\<close>

lemma iterator_cases:
  "iterator e j c st =
     (if staged e st c
      then (emit (Logged (logInfoFn st)
                    (LoadingFrom (case map_of (languages st) c of
                                    Some (LangConfig name plurals) \<Rightarrow> name
                                  | _ \<Rightarrow> JUndefined)
                       (po_file e st c))) st)
             \<lparr>pending := pending st @
                [\<lparr>t_code = c, t_plurals = the (map_of (languages st) c),
                  t_poFile = po_file e st c, t_join = j\<rparr>]\<rparr>
      else each_done j c
             (Some (case map_of (languages st) c of
                      Some (LangConfig name plurals) \<Rightarrow>
                        if truthy name \<and> truthy plurals
                        then CouldNotLocate (po_file e st c)
                        else NoPluralInformation c
                    | _ \<Rightarrow> NoPluralInformation c)) st)"
  by (simp add: iterator_def staged_def po_file_def Let_def
      split: option.split lang_entry.split)

lemma loadLanguage_callback_loadedLanguages:
  "loadedLanguages (loadLanguage_callback e t st) =
     (case parseFile e (t_poFile t) of
        Inl err \<Rightarrow> loadedLanguages st
      | Inr d \<Rightarrow>
          (loadedLanguages st)
            (t_code t \<mapsto>
               \<lparr>jed = \<lparr>po = d, lang = t_code t, plural_forms = t_plurals t\<rparr>,
                code = t_code t,
                closure_locale =
                  Some \<lparr>po = d, lang = t_code t, plural_forms = t_plurals t\<rparr>\<rparr>))"
  by (simp add: loadLanguage_callback_def new_Jed_def Let_def split: sum.split)

lemma config_frame:
  assumes "languages st' = languages st" and "pathToTranslations st' = pathToTranslations st"
  shows "po_file e st' = po_file e st" and "staged e st' = staged e st"
    and "loads e st' = loads e st"
  unfolding po_file_def staged_def loads_def assms by (rule refl)+

section \<open>The argument lists of the helpers\<close>

lemma two_or_more:
  assumes "2 \<le> length (xs :: 'a list)"
  obtains a ys b where "xs = a # ys @ [b]"
proof -
  from assms obtain a zs where xs: "xs = a # zs" and "1 \<le> length zs"
    by (cases xs) auto
  then have "zs \<noteq> []" by auto
  then obtain ys b where "zs = ys @ [b]"
    by (metis rev_exhaust)
  with xs show thesis using that by blast
qed

lemma compact_nulled_ends:
  "compact (((a # ys @ [b])[0 := JNull])[length (a # ys @ [b]) - 1 := JNull]) = compact ys"
  by (simp add: compact_def)

lemma tr_args_middle:
  "tr_args arguments =
     (if 2 \<le> length arguments then compact (butlast (tl arguments)) else arguments)"
proof (cases "2 \<le> length arguments")
  case True
  then obtain a ys b where xs: "arguments = a # ys @ [b]"
    by (rule two_or_more)
  show ?thesis
    unfolding tr_args_def Let_def xs using compact_nulled_ends [of a ys b]
    by (simp add: butlast_append)
next
  case False
  then show ?thesis by (simp add: tr_args_def)
qed

lemma trn_args_middle:
  "trn_args arguments =
     (if 4 \<le> length arguments then compact (butlast (drop 2 arguments)) else arguments)"
proof (cases "4 \<le> length arguments")
  case True
  then obtain a zs where 1: "arguments = a # zs" and "3 \<le> length zs"
    by (cases arguments) auto
  then obtain b ws where 2: "zs = b # ws" and "2 \<le> length ws"
    by (cases zs) auto
  then obtain c ys d where 3: "ws = c # ys @ [d]"
    by (auto elim: two_or_more)
  show ?thesis
    unfolding trn_args_def Let_def 1 2 3
    by (simp add: compact_def butlast_append)
next
  case False
  then show ?thesis by (simp add: trn_args_def)
qed

lemma compact_truthy: "x \<in> set (compact xs) \<Longrightarrow> truthy x"
  by (simp add: compact_def)

text \<open>
  Claim C5. With two or more arguments, \<^verbatim>\<open>locale.__\<close> hands the formatter the arguments
  between the first and the last, compacted; with four or more, \<^verbatim>\<open>locale._n\<close> hands it
  the arguments between the second and the last, compacted; with fewer arguments the
  whole argument list is handed on as it is.
\<close>

theorem translation_arguments_stripped:
  "tr_args arguments =
     (if 2 \<le> length arguments then compact (butlast (tl arguments)) else arguments)
   \<and> trn_args arguments =
     (if 4 \<le> length arguments then compact (butlast (drop 2 arguments)) else arguments)
   \<and> returned (tr v e lg (Some l) arguments) =
       fetch e l (arg 0 arguments) (tr_args arguments)
   \<and> returned (trn v e lg (Some l) arguments) =
       fetch_plural e l (arg 0 arguments) (arg 2 arguments) (arg 1 arguments)
         (trn_args arguments)"
  using tr_args_middle [of arguments] trn_args_middle [of arguments]
  by (simp add: tr_def trn_def Let_def)

theorem translation_arguments_stripped_witness:
  "tr_args [JStr ''Hello %s'', JStr ''Ada'', JObj []] = [JStr ''Ada'']
   \<and> tr_args [JStr ''Hello''] = [JStr ''Hello'']
   \<and> trn_args [JStr ''%d file'', JStr ''%d files'', JNum 3, JNum 3, JObj []] = [JNum 3, JNum 3]
   \<and> trn_args [JStr ''%d file'', JStr ''%d files'', JNum 3] =
        [JStr ''%d file'', JStr ''%d files'', JNum 3]"
  using translation_arguments_stripped
      [where arguments = "[JStr ''Hello %s'', JStr ''Ada'', JObj []]" and v = Singleton
         and e = sample_env and lg = GlobalLogger and l = "jed german_locale"]
    translation_arguments_stripped
      [where arguments = "[JStr ''Hello'']" and v = Singleton
         and e = sample_env and lg = GlobalLogger and l = "jed german_locale"]
    translation_arguments_stripped
      [where arguments = "[JStr ''%d file'', JStr ''%d files'', JNum 3, JNum 3, JObj []]"
         and v = Singleton and e = sample_env and lg = GlobalLogger and l = "jed german_locale"]
    translation_arguments_stripped
      [where arguments = "[JStr ''%d file'', JStr ''%d files'', JNum 3]" and v = Singleton
         and e = sample_env and lg = GlobalLogger and l = "jed german_locale"]
  by (simp add: compact_def)

text \<open>
  Claim C9. Where slots are nulled (two or more arguments of \<^verbatim>\<open>locale.__\<close>, four or more
  of \<^verbatim>\<open>locale._n\<close>), no falsy value is left in the argument list of the formatter: a
  \<^verbatim>\<open>0\<close>, an empty string or a \<^verbatim>\<open>false\<close> that the caller passed as a substitution value
  is dropped with the nulled slots.
\<close>

theorem falsy_arguments_dropped:
  "\<not> truthy (JNum 0) \<and> \<not> truthy (JStr []) \<and> \<not> truthy (JBool False)
   \<and> (\<not> truthy x \<and> 2 \<le> length arguments \<longrightarrow> x \<notin> set (tr_args arguments))
   \<and> (\<not> truthy x \<and> 4 \<le> length arguments \<longrightarrow> x \<notin> set (trn_args arguments))"
  by (auto simp: tr_args_def trn_args_def Let_def dest: compact_truthy)

theorem falsy_arguments_dropped_witness:
  "JNum 0 \<in> set (butlast (tl [JStr ''%d new, %s'', JNum 0, JStr [], JObj []]))
   \<and> JNum 0 \<notin> set (tr_args [JStr ''%d new, %s'', JNum 0, JStr [], JObj []])
   \<and> tr_args [JStr ''%d new, %s'', JNum 0, JStr [], JObj []] = []
   \<and> JBool False \<notin> set (trn_args [JStr ''one'', JStr ''%d of %s'', JNum 2, JNum 2, JBool False, JObj []])
   \<and> trn_args [JStr ''one'', JStr ''%d of %s'', JNum 2, JNum 2, JBool False, JObj []] = [JNum 2, JNum 2]"
  using falsy_arguments_dropped [of "JNum 0" "[JStr ''%d new, %s'', JNum 0, JStr [], JObj []]"]
    falsy_arguments_dropped [of "JBool False" "[JStr ''one'', JStr ''%d of %s'', JNum 2, JNum 2, JBool False, JObj []]"]
  by (simp add: tr_args_def trn_args_def compact_def)

text \<open>
  Claim C3, at a failing input. The locale loaded for German formats with a sprintf that
  rejects the template \<^verbatim>\<open>50% off\<close>; the call \<^verbatim>\<open>locale.__('50% off')\<close> goes through the
  catalog branch, which has no \<^verbatim>\<open>try\<close>, and ends in the exception, in both variants.
\<close>

theorem catalog_failure_reaches_caller:
  "returned (tr Singleton strict_env (CustomLogger (UserFn 2)) (closure_locale german_locale)
      [JStr ''50% off'']) = Inl (Error ''[sprintf] huh?'')
   \<and> returned (tr ClassBased strict_env (CustomLogger (UserFn 2)) (closure_locale german_locale)
      [JStr ''50% off'']) = Inl (Error ''[sprintf] huh?'')"
  by (simp add: tr_def tr_args_def arg_def strict_env_def sample_env_def german_locale_def Let_def)

section \<open>Resolving a language\<close>

lemma german_loaded_fields:
  "loadedLanguages german_loaded = [''de'' \<mapsto> german_locale]"
  "defaultLocale german_loaded = DefaultCode ''en''"
  "middlewareLocale german_loaded = Some [''de'']"
  "logInfoFn german_loaded = BuiltinLogger ''i18n:info''"
  "logDebugFn german_loaded = BuiltinLogger ''i18n:debug''"
  "pending german_loaded = []"
  by (simp_all add: german_loaded_def model_defs sample_defs Let_def)






section \<open>The wrapped render function\<close>

lemma map_of_assign: "map_of (assign ps k v) = (map_of ps)(k \<mapsto> v)"
  by (induction ps k v rule: assign.induct) auto

lemma map_of_extend_object:
  "map_of (extend_object obj source) = map_of obj ++ map_of (rev source)"
proof (induction source arbitrary: obj)
  case Nil
  then show ?case by (simp add: extend_object_def)
next
  case (Cons p source)
  obtain k v where p: "p = (k, v)" by (cases p)
  have "extend_object obj (p # source) = extend_object (assign obj k v) source"
    by (simp add: extend_object_def p)
  then show ?case
    by (simp add: Cons.IH map_of_assign p map_add_def fun_eq_iff split: option.split)
qed

lemma render_locale_object:
  "render (LocaleObject l) view options cb =
     Inr (view,
          extend_object
            (extend_object []
               (case options of
                  FunctionOptions f ps \<Rightarrow> if cb = JUndefined then [] else ps
                | ObjectOptions ps \<Rightarrow> ps
                | NoOptions \<Rightarrow> []))
            [(''helpers'', JObj [(''tr'', JFun (LocaleTr (code l))), (''__'', JFun (LocaleTr (code l))),
                 (''trn'', JFun (LocaleTrn (code l))), (''_n'', JFun (LocaleTrn (code l)))])],
          (case options of
             FunctionOptions f ps \<Rightarrow> if cb = JUndefined then JFun f else cb
           | _ \<Rightarrow> cb))"
  by (cases options) (simp_all add: render_def)

text \<open>
  Claim C6, as the claim states it, fails. In the singleton with German loaded and the
  default \<^verbatim>\<open>'en'\<close>, a request for \<^verbatim>\<open>fr\<close> resolves to the string \<^verbatim>\<open>'en'\<close>: the four
  names on the request and in the helpers that the wrapped render merges are
  \<^verbatim>\<open>undefined\<close>, not translation functions. In the class-based variant the same request
  resolves to \<^verbatim>\<open>undefined\<close> and the handler throws before it wraps \<^verbatim>\<open>res.render\<close>.
\<close>

theorem helpers_undefined_for_string_default:
  "fst (handle_request Singleton (Language ''fr'') german_loaded) =
     Inr \<lparr>res_locals_locale = StringValue ''en'', req_tr = JUndefined, req_dunder = JUndefined,
          req_trn = JUndefined, req_n = JUndefined\<rparr>
   \<and> render (StringValue ''en'' :: string resolved) (JStr ''index'') (ObjectOptions []) JUndefined =
       Inr (JStr ''index'',
            [(''helpers'', JObj [(''tr'', JUndefined), (''__'', JUndefined),
                                 (''trn'', JUndefined), (''_n'', JUndefined)])],
            JUndefined)
   \<and> fst (handle_request ClassBased (Language ''fr'') german_loaded) =
       Inl (TypeError ''Cannot read property __ of undefined'')"
  by (simp add: handle_request_def getLocaleForLanguage_def read_locale_def render_def
      extend_object_def german_loaded_fields object_prototype_def Let_def)

text \<open>
  Claim C6, amended. For a request whose negotiated language resolves to a loaded locale
  object, the handler puts that locale's two closures on the request under the four
  names, and the wrapped \<^verbatim>\<open>res.render\<close> behaves as follows. Called with a function as
  options and no callback, it hands the original render the view, a fresh object that
  holds the helpers only, and that function as the callback. Called otherwise, it hands
  on the view, the callback as it is, and an object that holds the enumerable
  properties of the options (none if the options are left out) and, under \<^verbatim>\<open>helpers\<close>,
  replacing a property of that name, an object whose \<^verbatim>\<open>tr\<close> and \<^verbatim>\<open>__\<close> are the locale's
  \<^verbatim>\<open>__\<close> and whose \<^verbatim>\<open>trn\<close> and \<^verbatim>\<open>_n\<close> are its \<^verbatim>\<open>_n\<close>. (\<open>map_of (rev ps)\<close> is the
  map of \<open>ps\<close> where a name listed twice has its last value; an enumeration lists each
  name once.)
\<close>

theorem render_merges_helpers:
  assumes "middlewareLocale st = Some supported"
    and "fst (getLocaleForLanguage v c st) = LocaleObject l"
  shows "fst (handle_request v c st) =
           Inr \<lparr>res_locals_locale = LocaleObject l,
                req_tr = JFun (LocaleTr (code l)), req_dunder = JFun (LocaleTr (code l)),
                req_trn = JFun (LocaleTrn (code l)), req_n = JFun (LocaleTrn (code l))\<rparr>
    \<and> render (LocaleObject l) view (FunctionOptions f ps) JUndefined =
         Inr (view, [(''helpers'', JObj [(''tr'', JFun (LocaleTr (code l))), (''__'', JFun (LocaleTr (code l))),
                 (''trn'', JFun (LocaleTrn (code l))), (''_n'', JFun (LocaleTrn (code l)))])], JFun f)
    \<and> (cb \<noteq> JUndefined \<longrightarrow>
         (\<exists>passed.
            render (LocaleObject l) view (FunctionOptions f ps) cb = Inr (view, passed, cb)
            \<and> map_of passed = (map_of (rev ps))(''helpers'' \<mapsto> JObj [(''tr'', JFun (LocaleTr (code l))), (''__'', JFun (LocaleTr (code l))),
                 (''trn'', JFun (LocaleTrn (code l))), (''_n'', JFun (LocaleTrn (code l)))])))
    \<and> (\<exists>passed.
          render (LocaleObject l) view (ObjectOptions ps) cb = Inr (view, passed, cb)
          \<and> map_of passed = (map_of (rev ps))(''helpers'' \<mapsto> JObj [(''tr'', JFun (LocaleTr (code l))), (''__'', JFun (LocaleTr (code l))),
                 (''trn'', JFun (LocaleTrn (code l))), (''_n'', JFun (LocaleTrn (code l)))]))
    \<and> render (LocaleObject l) view NoOptions cb =
         Inr (view, [(''helpers'', JObj [(''tr'', JFun (LocaleTr (code l))), (''__'', JFun (LocaleTr (code l))),
                 (''trn'', JFun (LocaleTrn (code l))), (''_n'', JFun (LocaleTrn (code l)))])], cb)"
proof -
  have 1: "fst (handle_request v c st) =
           Inr \<lparr>res_locals_locale = LocaleObject l,
                req_tr = JFun (LocaleTr (code l)), req_dunder = JFun (LocaleTr (code l)),
                req_trn = JFun (LocaleTrn (code l)), req_n = JFun (LocaleTrn (code l))\<rparr>"
    using assms by (simp add: handle_request_def split_beta)
  have 2: "render (LocaleObject l) view (FunctionOptions f ps) JUndefined =
         Inr (view, [(''helpers'', JObj [(''tr'', JFun (LocaleTr (code l))), (''__'', JFun (LocaleTr (code l))),
                 (''trn'', JFun (LocaleTrn (code l))), (''_n'', JFun (LocaleTrn (code l)))])], JFun f)"
    by (simp add: render_locale_object extend_object_def)
  have 3: "\<exists>passed.
            render (LocaleObject l) view (FunctionOptions f ps) cb = Inr (view, passed, cb)
            \<and> map_of passed = (map_of (rev ps))(''helpers'' \<mapsto> JObj [(''tr'', JFun (LocaleTr (code l))), (''__'', JFun (LocaleTr (code l))),
                 (''trn'', JFun (LocaleTrn (code l))), (''_n'', JFun (LocaleTrn (code l)))])"
    if "cb \<noteq> JUndefined"
    using that by (simp add: render_locale_object map_of_extend_object)
  have 4: "\<exists>passed.
          render (LocaleObject l) view (ObjectOptions ps) cb = Inr (view, passed, cb)
          \<and> map_of passed = (map_of (rev ps))(''helpers'' \<mapsto> JObj [(''tr'', JFun (LocaleTr (code l))), (''__'', JFun (LocaleTr (code l))),
                 (''trn'', JFun (LocaleTrn (code l))), (''_n'', JFun (LocaleTrn (code l)))])"
    by (simp add: render_locale_object map_of_extend_object)
  have 5: "render (LocaleObject l) view NoOptions cb =
         Inr (view, [(''helpers'', JObj [(''tr'', JFun (LocaleTr (code l))), (''__'', JFun (LocaleTr (code l))),
                 (''trn'', JFun (LocaleTrn (code l))), (''_n'', JFun (LocaleTrn (code l)))])], cb)"
    by (simp add: render_locale_object extend_object_def)
  from 1 2 3 4 5 show ?thesis by blast
qed

theorem render_merges_helpers_witness:
  "fst (handle_request Singleton (Language ''de'') german_loaded) =
     Inr \<lparr>res_locals_locale = LocaleObject german_locale,
          req_tr = JFun (LocaleTr ''de''), req_dunder = JFun (LocaleTr ''de''),
          req_trn = JFun (LocaleTrn ''de''), req_n = JFun (LocaleTrn ''de'')\<rparr>
   \<and> render (LocaleObject german_locale) (JStr ''index'') (FunctionOptions (UserFn 9) [])
       JUndefined =
       Inr (JStr ''index'', [(''helpers'', JObj [(''tr'', JFun (LocaleTr ''de'')), (''__'', JFun (LocaleTr ''de'')),
                 (''trn'', JFun (LocaleTrn ''de'')), (''_n'', JFun (LocaleTrn ''de''))])], JFun (UserFn 9))
   \<and> render (LocaleObject german_locale) (JStr ''index'')
       (ObjectOptions [(''title'', JStr ''Home''), (''helpers'', JObj []), (''lang'', JStr ''de'')])
       (JFun (UserFn 9)) =
       Inr (JStr ''index'',
            [(''title'', JStr ''Home''), (''helpers'', JObj [(''tr'', JFun (LocaleTr ''de'')), (''__'', JFun (LocaleTr ''de'')),
                 (''trn'', JFun (LocaleTrn ''de'')), (''_n'', JFun (LocaleTrn ''de''))]), (''lang'', JStr ''de'')],
            JFun (UserFn 9))"
proof -
  have m: "middlewareLocale german_loaded = Some [''de'']"
    by (rule german_loaded_fields)
  have g: "fst (getLocaleForLanguage Singleton (Language ''de'') german_loaded) =
             LocaleObject german_locale"
    by (simp add: getLocaleForLanguage_def read_locale_def german_loaded_fields)
  have c: "code german_locale = ''de''"
    by (simp add: german_locale_def)
  have r: "render (LocaleObject german_locale) (JStr ''index'')
       (ObjectOptions [(''title'', JStr ''Home''), (''helpers'', JObj []), (''lang'', JStr ''de'')])
       (JFun (UserFn 9)) =
       Inr (JStr ''index'',
            [(''title'', JStr ''Home''), (''helpers'', JObj [(''tr'', JFun (LocaleTr ''de'')), (''__'', JFun (LocaleTr ''de'')),
                 (''trn'', JFun (LocaleTrn ''de'')), (''_n'', JFun (LocaleTrn ''de''))]), (''lang'', JStr ''de'')],
            JFun (UserFn 9))"
    by (simp add: render_locale_object extend_object_def c)
  from render_merges_helpers
         [OF m g, where view = "JStr ''index''" and f = "UserFn 9" and ps = "[]"
            and cb = JUndefined]
    r
  show ?thesis by (simp add: c)
qed

section \<open>configure\<close>

text \<open>
  Claim C8, as the claim states it, fails: with no language registered, the message goes
  to the error callback (here the function 2), and the warn callback (the function 1)
  is not called.
\<close>

theorem empty_registry_is_logged_as_error:
  "trace (configure sample_env empty_options module_loaded) =
     [Logged (CustomLogger (UserFn 2)) NoLanguagesDefined]
   \<and> logWarnFn (configure sample_env empty_options module_loaded) = CustomLogger (UserFn 1)
   \<and> logErrorFn (configure sample_env empty_options module_loaded) = CustomLogger (UserFn 2)"
  by (simp add: configure_def emit_def empty_options_def sample_options_def
      logger_option_def module_loaded_def Let_def)

text \<open>
  Claim C8, amended. With an empty registry (no \<^verbatim>\<open>languages\<close> object, or one without
  properties), \<^verbatim>\<open>configure\<close> logs one message, through the error-level callback
  \<^verbatim>\<open>logErrorFn\<close> (the one of the options when that is a function, else the built-in
  \<^verbatim>\<open>i18n:error\<close>), and completes: the default locale is the configured string or
  \<^verbatim>\<open>'en'\<close>, the catalog directory the configured string or \<^verbatim>\<open>path.join(cwd, 'i18n')\<close>,
  and nothing is loaded.
\<close>

theorem configure_empty_registry:
  assumes "opt_languages options = None \<or> opt_languages options = Some []"
  shows "trace (configure e options rt) =
           trace rt @ [Logged (logErrorFn (configure e options rt)) NoLanguagesDefined]
    \<and> logErrorFn (configure e options rt) =
        (case opt_logErrorFn options of
           JFun f \<Rightarrow> CustomLogger f
         | _ \<Rightarrow> BuiltinLogger ''i18n:error'')
    \<and> logWarnFn (configure e options rt) =
        (case opt_logWarnFn options of
           JFun f \<Rightarrow> CustomLogger f
         | _ \<Rightarrow> BuiltinLogger ''i18n:warn'')
    \<and> defaultLocale (configure e options rt) =
        DefaultCode (case opt_defaultLocale options of JStr s \<Rightarrow> s | _ \<Rightarrow> ''en'')
    \<and> pathToTranslations (configure e options rt) =
        (case opt_pathToTranslations options of
           JStr s \<Rightarrow> s
         | _ \<Rightarrow> path_join e (cwd e) ''i18n'')
    \<and> languageCodes (configure e options rt) = []
    \<and> loadedLanguages (configure e options rt) = Map.empty
    \<and> pending (configure e options rt) = pending rt"
  using assms
  by (auto simp: configure_def emit_def logger_option_def Let_def)

theorem configure_empty_registry_witness:
  "opt_languages empty_options = Some []
   \<and> trace (configure sample_env empty_options module_loaded) =
       [Logged (CustomLogger (UserFn 2)) NoLanguagesDefined]
   \<and> defaultLocale (configure sample_env empty_options module_loaded) = DefaultCode ''en''
   \<and> pathToTranslations (configure sample_env empty_options module_loaded) = ''/srv/app/i18n''"
  using configure_empty_registry [of empty_options sample_env module_loaded]
  by (simp add: empty_options_def sample_options_def sample_env_def module_loaded_def)

section \<open>The default locale\<close>

lemma resolve_keeps_truthy_default:
  "default_truthy (defaultLocale st) \<Longrightarrow> defaultLocale (resolve e i st) = defaultLocale st"
  by (simp add: resolve_def loadLanguage_callback_def new_Jed_def Let_def split: sum.split)

lemma step_keeps_truthy_default:
  "default_truthy (defaultLocale st) \<Longrightarrow> \<not> is_Configure x \<Longrightarrow>
     defaultLocale (step v e x st) = defaultLocale st"
  by (cases x) (simp_all add: resolve_keeps_truthy_default)

lemma run_keeps_truthy_default:
  "default_truthy (defaultLocale st) \<Longrightarrow> \<forall>x \<in> set ops. \<not> is_Configure x \<Longrightarrow>
     defaultLocale (run v e ops st) = defaultLocale st"
  by (induction ops arbitrary: st) (simp_all add: step_keeps_truthy_default)

lemma resolve_sets_falsy_default:
  assumes "\<not> default_truthy (defaultLocale st)" and "i < length (pending st)"
    and "parseFile e (t_poFile (pending st ! i)) = Inr d"
  shows "defaultLocale (resolve e i st) =
           DefaultObject
             \<lparr>jed = \<lparr>po = d, lang = t_code (pending st ! i),
                     plural_forms = t_plurals (pending st ! i)\<rparr>,
              code = t_code (pending st ! i),
              closure_locale =
                Some \<lparr>po = d, lang = t_code (pending st ! i),
                      plural_forms = t_plurals (pending st ! i)\<rparr>\<rparr>"
  using assms by (simp add: resolve_def loadLanguage_callback_def new_Jed_def Let_def)

text \<open>
  Claim C4, as the claim states it, fails: no default locale is configured, German is
  loaded, and the default is still the string \<^verbatim>\<open>'en'\<close>, not the locale that was loaded.
\<close>

theorem unconfigured_default_stays_en:
  "opt_defaultLocale sample_options = JUndefined
   \<and> defaultLocale
       (run Singleton sample_env [Initialize JUndefined, Resolve 0]
          (configure sample_env sample_options module_loaded)) = DefaultCode ''en''
   \<and> loadedLanguages
       (run Singleton sample_env [Initialize JUndefined, Resolve 0]
          (configure sample_env sample_options module_loaded)) ''de'' = Some german_locale"
  by (simp add: model_defs sample_defs Let_def)

text \<open>
  Claim C4, amended. \<^verbatim>\<open>configure\<close> always stores a default: the configured string, or
  \<^verbatim>\<open>'en'\<close> when the option is not a string. While the stored default is truthy (any
  string but the empty one, or a locale), nothing but another \<^verbatim>\<open>configure\<close> changes it;
  in particular, with no default configured it stays \<^verbatim>\<open>'en'\<close>. While it is falsy (the
  empty string was configured), the next locale that loads becomes the default.
\<close>

theorem default_locale_after_loading:
  "defaultLocale (configure e options rt) =
     DefaultCode (case opt_defaultLocale options of JStr s \<Rightarrow> s | _ \<Rightarrow> ''en'')
   \<and> (default_truthy (defaultLocale st) \<and> (\<forall>x \<in> set ops. \<not> is_Configure x) \<longrightarrow>
        defaultLocale (run v e ops st) = defaultLocale st)
   \<and> (\<not> default_truthy (defaultLocale st) \<and> i < length (pending st)
        \<and> parseFile e (t_poFile (pending st ! i)) = Inr d \<longrightarrow>
        defaultLocale (resolve e i st) =
           DefaultObject
             \<lparr>jed = \<lparr>po = d, lang = t_code (pending st ! i),
                     plural_forms = t_plurals (pending st ! i)\<rparr>,
              code = t_code (pending st ! i),
              closure_locale =
                Some \<lparr>po = d, lang = t_code (pending st ! i),
                      plural_forms = t_plurals (pending st ! i)\<rparr>\<rparr>)"
  using run_keeps_truthy_default [of st ops v e] resolve_sets_falsy_default [of st i e d]
  by (simp add: configure_def emit_def Let_def)

lemma blank_default_started:
  "defaultLocale (initialize sample_env JUndefined
      (configure sample_env blank_default_options module_loaded)) = DefaultCode []"
  "pending (initialize sample_env JUndefined
      (configure sample_env blank_default_options module_loaded)) =
     [\<lparr>t_code = ''de'', t_plurals = german,
       t_poFile = ''/srv/app/i18n/de/LC_MESSAGES/messages.po'', t_join = 0\<rparr>]"
  by (simp_all add: model_defs sample_defs Let_def)

theorem default_locale_after_loading_witness:
  "defaultLocale (configure sample_env sample_options module_loaded) = DefaultCode ''en''
   \<and> defaultLocale
       (run Singleton sample_env [Initialize JUndefined, Resolve 0]
          (configure sample_env sample_options module_loaded)) = DefaultCode ''en''
   \<and> defaultLocale
       (resolve sample_env 0
          (initialize sample_env JUndefined
             (configure sample_env blank_default_options module_loaded))) =
       DefaultObject german_locale"
  using default_locale_after_loading
      [where e = sample_env and options = sample_options and rt = module_loaded
         and st = "configure sample_env sample_options module_loaded"
         and ops = "[Initialize JUndefined, Resolve 0]" and v = Singleton and i = 0
         and d = "''x''"]
    default_locale_after_loading
      [where e = sample_env and options = sample_options and rt = module_loaded
         and st = "initialize sample_env JUndefined
             (configure sample_env blank_default_options module_loaded)"
         and ops = "[]" and v = Singleton and i = 0
         and d = "''/srv/app/i18n/de/LC_MESSAGES/messages.po''"]
  by (simp add: blank_default_started)
     (simp add: sample_defs configure_def Let_def)

section \<open>Loaded languages and the registry\<close>

























section \<open>The branches of the attached helpers\<close>

lemma captured_catalogs_configure: "captured_catalogs (configure e options rt)"
  by (simp add: captured_catalogs_def configure_def Let_def)

lemma captured_catalogs_loadLanguage_callback:
  assumes "captured_catalogs st"
  shows "captured_catalogs (loadLanguage_callback e t st)"
proof (cases "parseFile e (t_poFile t)")
  case (Inl err)
  with assms show ?thesis
    by (simp add: captured_catalogs_def loadLanguage_callback_def)
next
  case (Inr d)
  with assms show ?thesis
    by (auto simp: captured_catalogs_def loadLanguage_callback_def new_Jed_def Let_def)
qed

lemma captured_catalogs_resolve:
  assumes "captured_catalogs st"
  shows "captured_catalogs (resolve e i st)"
proof (cases "i < length (pending st)")
  case False
  with assms show ?thesis by (simp add: resolve_def)
next
  case True
  let ?st = "st\<lparr>pending := take i (pending st) @ drop (Suc i) (pending st)\<rparr>"
  from assms have "captured_catalogs ?st"
    by (simp add: captured_catalogs_def)
  then have "captured_catalogs (loadLanguage_callback e (pending st ! i) ?st)"
    by (rule captured_catalogs_loadLanguage_callback)
  with True show ?thesis by (simp add: resolve_def)
qed

lemma captured_catalogs_step:
  assumes "captured_catalogs st"
  shows "captured_catalogs (step v e x st)"
proof (cases x)
  case (Configure options)
  with assms show ?thesis
    by (cases v) (simp_all add: captured_catalogs_configure)
next
  case (Initialize cb)
  with assms show ?thesis by (simp add: captured_catalogs_def)
next
  case (Resolve i)
  with assms show ?thesis by (simp add: captured_catalogs_resolve)
next
  case (GetLocaleForLanguage c)
  with assms show ?thesis by (simp add: captured_catalogs_def)
next
  case Middleware
  with assms show ?thesis by (simp add: captured_catalogs_def)
next
  case (Request c)
  with assms show ?thesis by (simp add: captured_catalogs_def)
qed

lemma captured_catalogs_run:
  "captured_catalogs st \<Longrightarrow> captured_catalogs (run v e ops st)"
  by (induction ops arbitrary: st) (simp_all add: captured_catalogs_step)

lemma resolved_locale_held:
  assumes "fst (getLocaleForLanguage v c st) = LocaleObject l"
  shows "(\<exists>k. loadedLanguages st k = Some l) \<or> defaultLocale st = DefaultObject l"
proof (cases "defaultLocale st")
  case (DefaultCode s)
  with assms show ?thesis
    by (auto simp: getLocaleForLanguage_def read_locale_def Let_def
        split: lang_arg.splits option.splits if_splits variant.splits)
next
  case (DefaultObject d)
  with assms show ?thesis
    by (auto simp: getLocaleForLanguage_def read_locale_def Let_def
        split: lang_arg.splits option.splits if_splits variant.splits)
qed

lemma catalog_branch:
  assumes "closure_locale l \<noteq> None"
  shows "visited (tr v e lg (closure_locale l) arguments) = [Catalog]"
    and "visited (trn v e lg (closure_locale l) arguments) = [Catalog]"
    and "logged (tr v e lg (closure_locale l) arguments) = []"
    and "logged (trn v e lg (closure_locale l) arguments) = []"
  using assms by (auto simp: tr_def trn_def Let_def)

text \<open>
  Claim C10. In every state reached from \<^verbatim>\<open>configure\<close> (the constructor) by any
  operations, a locale object that \<^verbatim>\<open>getLocaleForLanguage\<close> returns has closures whose
  captured \<^verbatim>\<open>locale\<close> is an object: a call of its \<^verbatim>\<open>__\<close> or \<^verbatim>\<open>_n\<close>, with any
  arguments, goes through the catalog branch only. It never enters the
  \<^verbatim>\<open>vsprintf\<close> branch nor its catch handler, the one place where the singleton
  names \<^verbatim>\<open>Logger\<close>, and it logs nothing.
\<close>

theorem fallback_branch_unreachable:
  assumes "fst (getLocaleForLanguage v c (run v e ops (configure e options module_loaded))) =
             LocaleObject l"
  shows "closure_locale l \<noteq> None
    \<and> visited (tr v e lg (closure_locale l) arguments) = [Catalog]
    \<and> visited (trn v e lg (closure_locale l) arguments) = [Catalog]
    \<and> logged (tr v e lg (closure_locale l) arguments) = []
    \<and> logged (trn v e lg (closure_locale l) arguments) = []"
proof -
  let ?st = "run v e ops (configure e options module_loaded)"
  have "captured_catalogs ?st"
    by (rule captured_catalogs_run) (rule captured_catalogs_configure)
  moreover from assms
  have "(\<exists>k. loadedLanguages ?st k = Some l) \<or> defaultLocale ?st = DefaultObject l"
    by (rule resolved_locale_held)
  ultimately have "closure_locale l \<noteq> None"
    unfolding captured_catalogs_def by blast
  then show ?thesis by (simp add: catalog_branch)
qed

theorem fallback_branch_unreachable_witness:
  "fst (getLocaleForLanguage Singleton (Language ''de'')
         (run Singleton sample_env [Initialize JUndefined, Resolve 0, Middleware]
            (configure sample_env sample_options module_loaded))) = LocaleObject german_locale
   \<and> visited (tr Singleton sample_env GlobalLogger (closure_locale german_locale)
        [JStr ''50% off'']) = [Catalog]
   \<and> visited (trn Singleton sample_env GlobalLogger (closure_locale german_locale)
        [JStr ''%d file'', JStr ''%d files'', JNum 3]) = [Catalog]"
proof -
  have h: "fst (getLocaleForLanguage Singleton (Language ''de'')
         (run Singleton sample_env [Initialize JUndefined, Resolve 0, Middleware]
            (configure sample_env sample_options module_loaded))) = LocaleObject german_locale"
  proof -
    have "fst (getLocaleForLanguage Singleton (Language ''de'') german_loaded) =
            LocaleObject german_locale"
      by (simp add: getLocaleForLanguage_def read_locale_def german_loaded_fields)
    then show ?thesis unfolding german_loaded_def .
  qed
  from fallback_branch_unreachable [OF h, of GlobalLogger] h show ?thesis by blast
qed

section \<open>initialize\<close>

lemma dones_append: "dones (xs @ ys) = dones xs @ dones ys"
  by (induction xs rule: dones.induct) simp_all

lemma calls_append: "calls (xs @ ys) = calls xs @ calls ys"
  by (induction xs rule: calls.induct) simp_all

lemma first_error_snoc:
  "first_error (ds @ [(c, x)]) = (case first_error ds of Some err \<Rightarrow> Some err | None \<Rightarrow> x)"
proof (induction ds rule: first_error.induct)
  case 1
  then show ?case by (cases x) simp_all
qed simp_all

lemma finished_trace:
  "dones (trace (finished cb err st)) = dones (trace st)"
  "calls (trace (finished (JFun f) err st)) = calls (trace st) @ [(f, err)]"
  by (simp_all add: finished_def Let_def dones_append calls_append split: option.split jsval.split)

lemma each_done_dones:
  "dones (trace (each_done j c err st)) = dones (trace st) @ [(c, err)]"
  by (simp add: each_done_def Let_def dones_append finished_trace split: option.split)

lemma iterator_joins_frame:
  "length (joins (each_done j c err st)) = length (joins st)"
  by (simp add: each_done_def Let_def split: option.split)

lemma join_inv_cong:
  assumes "trace st' = trace st" and "joins st' = joins st"
    and "languageCodes st' = languageCodes st"
  shows "join_inv f st' = join_inv f st"
  by (simp add: join_inv_def assms)

lemma join_inv_logged:
  "join_inv f (emit (Logged lg m) st) = join_inv f st"
  by (simp add: join_inv_def dones_append calls_append)

lemma each_done_joins:
  assumes "joins st = [jn]"
  shows "joins (each_done 0 c err st) =
           [case err of
              Some x \<Rightarrow> (if live jn then jn\<lparr>live := False\<rparr> else jn)
            | None \<Rightarrow> jn\<lparr>completed := completed jn + 1\<rparr>]"
  using assms by (cases err) (simp_all add: each_done_def Let_def)

lemma each_done_calls:
  assumes "joins st = [jn]" and "callback jn = JFun f"
  shows "calls (trace (each_done 0 c err st)) =
           calls (trace st) @
             (case err of
                Some x \<Rightarrow> if live jn then [(f, Some x)] else []
              | None \<Rightarrow> if n_items jn \<le> completed jn + 1 \<and> live jn then [(f, None)] else [])"
  using assms
  by (cases err) (simp_all add: each_done_def Let_def calls_append finished_trace)

lemma join_inv_each_done:
  assumes inv: "join_inv f st"
    and room: "length (dones (trace st)) < length (languageCodes st)"
  shows "join_inv f (each_done 0 c err st)"
proof -
  define ds where "ds = dones (trace st)"
  define n where "n = length (languageCodes st)"
  from inv obtain jn where
    js: "joins st = [jn]" and items: "n_items jn = n" and cb: "callback jn = JFun f"
    and lv: "live jn = (first_error ds = None)"
    and k: "first_error ds = None \<longrightarrow> completed jn = length ds"
    and cs: "calls (trace st) = expected_calls f n ds"
    unfolding join_inv_def ds_def n_def by (elim conjE exE)
  let ?st = "each_done 0 c err st"
  have D: "dones (trace ?st) = ds @ [(c, err)]"
    unfolding ds_def by (rule each_done_dones)
  have L: "length (languageCodes ?st) = n"
    unfolding n_def by simp
  from room have room': "length ds < n"
    by (simp add: ds_def n_def)
  have F: "first_error (ds @ [(c, err)]) =
             (case first_error ds of Some y \<Rightarrow> Some y | None \<Rightarrow> err)"
    by (rule first_error_snoc)
  have J: "joins ?st =
           [case err of
              Some x \<Rightarrow> (if live jn then jn\<lparr>live := False\<rparr> else jn)
            | None \<Rightarrow> jn\<lparr>completed := completed jn + 1\<rparr>]"
    using js by (rule each_done_joins)
  have C: "calls (trace ?st) =
           calls (trace st) @
             (case err of
                Some x \<Rightarrow> if live jn then [(f, Some x)] else []
              | None \<Rightarrow> if n_items jn \<le> completed jn + 1 \<and> live jn
                         then [(f, None)] else [])"
    using js cb by (rule each_done_calls)
  have "calls (trace st) @
             (case err of
                Some x \<Rightarrow> if live jn then [(f, Some x)] else []
              | None \<Rightarrow> if n_items jn \<le> completed jn + 1 \<and> live jn
                         then [(f, None)] else []) =
        expected_calls f n (ds @ [(c, err)])"
  proof (cases "first_error ds")
    case None
    with k have kk: "completed jn = length ds" by simp
    from None lv have live: "live jn" by simp
    from None room' have e0: "expected_calls f n ds = []"
      by (simp add: expected_calls_def)
    show ?thesis
    proof (cases err)
      case (Some x)
      then show ?thesis
        using room' by (simp add: cs live expected_calls_def first_error_snoc None)
    next
      case none: None
      then show ?thesis
        using room' by (auto simp: cs live kk items expected_calls_def first_error_snoc None)
    qed
  next
    case (Some y)
    with lv have dead: "\<not> live jn" by simp
    from Some have e1: "expected_calls f n ds = [(f, Some y)]"
      by (simp add: expected_calls_def)
    show ?thesis
      by (cases err) (simp_all add: cs dead expected_calls_def first_error_snoc Some)
  qed
  then have goal_calls: "calls (trace ?st) = expected_calls f n (dones (trace ?st))"
    unfolding C D .
  define jn' where
    "jn' = (case err of
              Some x \<Rightarrow> (if live jn then jn\<lparr>live := False\<rparr> else jn)
            | None \<Rightarrow> jn\<lparr>completed := completed jn + 1\<rparr>)"
  have J': "joins ?st = [jn']"
    unfolding jn'_def by (rule J)
  have 1: "n_items jn' = n"
    unfolding jn'_def using items by (cases err) simp_all
  have 2: "callback jn' = JFun f"
    unfolding jn'_def using cb by (cases err) simp_all
  have 3: "live jn' = (first_error (ds @ [(c, err)]) = None)"
    unfolding jn'_def using lv
    by (cases err; cases "first_error ds") (simp_all add: first_error_snoc)
  have 4: "first_error (ds @ [(c, err)]) = None \<longrightarrow>
             completed jn' = length (ds @ [(c, err)])"
    unfolding jn'_def using k
    by (cases err; cases "first_error ds") (simp_all add: first_error_snoc)
  have goal_join: "\<exists>jn. joins ?st = [jn]
           \<and> n_items jn = length (languageCodes ?st)
           \<and> callback jn = JFun f
           \<and> live jn = (first_error (dones (trace ?st)) = None)
           \<and> (first_error (dones (trace ?st)) = None \<longrightarrow>
                completed jn = length (dones (trace ?st)))"
    unfolding D L using J' 1 2 3 4 by (intro exI [of _ jn'] conjI)
  from goal_join goal_calls show ?thesis
    unfolding join_inv_def L by (rule conjI)
qed
lemma loadLanguage_callback_dones:
  "dones (trace (loadLanguage_callback e t st)) =
     dones (trace st) @
       [(t_code t,
         case parseFile e (t_poFile t) of
           Inl err \<Rightarrow> Some (ParseError (t_code t) err)
         | Inr d \<Rightarrow> None)]"
  by (simp add: loadLanguage_callback_def new_Jed_def Let_def each_done_dones dones_append
      split: sum.split)

lemma join_inv_iterator:
  assumes "join_inv f st" and "length (dones (trace st)) < length (languageCodes st)"
  shows "join_inv f (iterator e 0 c st)"
proof (cases "staged e st c")
  case True
  then show ?thesis
    using assms(1) by (simp add: iterator_cases join_inv_def dones_append calls_append)
next
  case False
  then show ?thesis
    using assms by (simp add: iterator_cases join_inv_each_done)
qed

lemma join_inv_loadLanguage_callback:
  assumes "join_inv f st" and "length (dones (trace st)) < length (languageCodes st)"
    and "t_join t = 0"
  shows "join_inv f (loadLanguage_callback e t st)"
proof (cases "parseFile e (t_poFile t)")
  case (Inl err)
  with assms show ?thesis
    by (simp add: loadLanguage_callback_def join_inv_each_done)
next
  case (Inr d)
  let ?loc = "\<lparr>jed = \<lparr>po = d, lang = t_code t, plural_forms = t_plurals t\<rparr>,
               code = t_code t,
               closure_locale = Some \<lparr>po = d, lang = t_code t, plural_forms = t_plurals t\<rparr>\<rparr>"
  let ?st1 = "st\<lparr>loadedLanguages := (loadedLanguages st)(t_code t \<mapsto> ?loc)\<rparr>"
  let ?st2 = "if \<not> default_truthy (defaultLocale ?st1)
              then ?st1\<lparr>defaultLocale := DefaultObject ?loc\<rparr> else ?st1"
  let ?st3 = "emit (Logged (logInfoFn ?st2) (LoadingFinishedFor (t_code t))) ?st2"
  have eq: "loadLanguage_callback e t st = each_done 0 (t_code t) None ?st3"
    using Inr assms(3) by (simp add: loadLanguage_callback_def new_Jed_def Let_def)
  have "join_inv f ?st2"
    using assms(1) by (simp add: join_inv_def)
  then have 1: "join_inv f ?st3"
    by (simp only: join_inv_logged)
  have 2: "length (dones (trace ?st3)) < length (languageCodes ?st3)"
    using assms(2) by (simp add: dones_append)
  from 1 2 show ?thesis
    unfolding eq by (rule join_inv_each_done)
qed

lemma count_inv_size:
  assumes "count_inv cs st"
  shows "length (dones (trace st)) + length (pending st) = length cs"
proof -
  have "size (mset (map fst (dones (trace st))) + mset (map t_code (pending st)))
          = size (mset cs)"
    using assms by (simp only: count_inv_def)
  then show ?thesis by simp
qed

lemma count_inv_iterator:
  assumes "count_inv cs st"
  shows "count_inv (cs @ [c]) (iterator e j c st)"
proof (cases "staged e st c")
  case True
  with assms show ?thesis
    by (simp add: iterator_cases count_inv_def dones_append)
next
  case False
  with assms show ?thesis
    by (simp add: iterator_cases count_inv_def each_done_dones)
qed

lemma mset_without_nth:
  assumes "i < length xs"
  shows "mset (map g (take i xs @ drop (Suc i) xs)) + {#g (xs ! i)#} = mset (map g xs)"
proof -
  have "xs = take i xs @ xs ! i # drop (Suc i) xs"
    using assms by (rule id_take_nth_drop)
  then have "mset (map g xs) = mset (map g (take i xs @ xs ! i # drop (Suc i) xs))"
    by simp
  then show ?thesis by simp
qed

lemma count_inv_resolve:
  assumes "count_inv cs st"
  shows "count_inv cs (resolve e i st)"
proof (cases "i < length (pending st)")
  case False
  with assms show ?thesis by (simp add: resolve_def)
next
  case True
  let ?rest = "take i (pending st) @ drop (Suc i) (pending st)"
  have "mset (map fst (dones (trace st))) + (mset (map t_code ?rest) + {#t_code (pending st ! i)#})
          = mset cs"
    using assms True by (simp only: mset_without_nth count_inv_def)
  then show ?thesis
    using True by (simp add: resolve_def count_inv_def loadLanguage_callback_dones ac_simps)
qed

lemma outcome_inv_iterator:
  assumes "outcome_inv e st"
  shows "outcome_inv e (iterator e 0 c st)"
proof -
  let ?st = "iterator e 0 c st"
  note cf = config_frame [of ?st st e, simplified]
  show ?thesis
  proof (cases "staged e st c")
    case True
    have p: "pending ?st = pending st @
                [\<lparr>t_code = c, t_plurals = the (map_of (languages st) c),
                  t_poFile = po_file e st c, t_join = 0\<rparr>]"
      and d: "dones (trace ?st) = dones (trace st)"
      and l: "loadedLanguages ?st = loadedLanguages st"
      using True by (simp_all add: iterator_cases dones_append)
    from assms True show ?thesis
      unfolding outcome_inv_def cf p d l by auto
  next
    case False
    then have nl: "\<not> loads e st c" by (simp add: loads_def)
    have p: "pending ?st = pending st"
      and l: "loadedLanguages ?st = loadedLanguages st"
      using False by (simp_all add: iterator_cases)
    from False obtain x where d: "dones (trace ?st) = dones (trace st) @ [(c, Some x)]"
      by (simp add: iterator_cases each_done_dones)
    from assms nl show ?thesis
      unfolding outcome_inv_def cf p d l by auto
  qed
qed

lemma outcome_inv_resolve:
  assumes "outcome_inv e st"
  shows "outcome_inv e (resolve e i st)"
proof (cases "i < length (pending st)")
  case False
  with assms show ?thesis by (simp add: resolve_def)
next
  case True
  let ?t = "pending st ! i"
  let ?st0 = "st\<lparr>pending := take i (pending st) @ drop (Suc i) (pending st)\<rparr>"
  let ?st = "loadLanguage_callback e ?t ?st0"
  have eq: "resolve e i st = ?st"
    using True by (simp add: resolve_def)
  note cf = config_frame [of ?st st e, simplified]
  from True have "?t \<in> set (pending st)" by simp
  with assms have t: "staged e st (t_code ?t)" "t_poFile ?t = po_file e st (t_code ?t)"
    unfolding outcome_inv_def by blast+
  have sub: "set (pending ?st) \<subseteq> set (pending st)"
    by (auto dest: in_set_takeD in_set_dropD)
  have d: "dones (trace ?st) =
             dones (trace st) @
               [(t_code ?t,
                 case parseFile e (t_poFile ?t) of
                   Inl err \<Rightarrow> Some (ParseError (t_code ?t) err)
                 | Inr d \<Rightarrow> None)]"
    by (simp add: loadLanguage_callback_dones)
  show ?thesis
  proof (cases "parseFile e (t_poFile ?t)")
    case (Inl err)
    with t have nl: "\<not> loads e st (t_code ?t)"
      by (simp add: loads_def)
    have l: "loadedLanguages ?st = loadedLanguages st"
      using Inl by (simp add: loadLanguage_callback_loadedLanguages)
    from assms sub nl show ?thesis
      unfolding eq outcome_inv_def cf d l Inl by auto
  next
    case (Inr x)
    with t have ld: "loads e st (t_code ?t)"
      by (simp add: loads_def)
    obtain loc where l: "loadedLanguages ?st = (loadedLanguages st)(t_code ?t \<mapsto> loc)"
      using Inr by (simp add: loadLanguage_callback_loadedLanguages)
    from assms sub ld show ?thesis
      unfolding eq outcome_inv_def cf d l Inr by auto
  qed
qed

lemma iterate_inv:
  assumes "join_inv f st" and "count_inv cs st" and "outcome_inv e st"
    and "length cs + length rest = length (languageCodes st)"
  shows "join_inv f (foldl (\<lambda>s c. iterator e 0 c s) st rest)
    \<and> count_inv (cs @ rest) (foldl (\<lambda>s c. iterator e 0 c s) st rest)
    \<and> outcome_inv e (foldl (\<lambda>s c. iterator e 0 c s) st rest)"
  using assms
proof (induction rest arbitrary: st cs)
  case Nil
  then show ?case by simp
next
  case (Cons c rest)
  let ?st = "iterator e 0 c st"
  from Cons.prems(2) have "length (dones (trace st)) + length (pending st) = length cs"
    by (rule count_inv_size)
  with Cons.prems(4) have room: "length (dones (trace st)) < length (languageCodes st)"
    by simp
  have 1: "join_inv f ?st"
    using Cons.prems(1) room by (rule join_inv_iterator)
  have 2: "count_inv (cs @ [c]) ?st"
    using Cons.prems(2) by (rule count_inv_iterator)
  have 3: "outcome_inv e ?st"
    using Cons.prems(3) by (rule outcome_inv_iterator)
  have 4: "length (cs @ [c]) + length rest = length (languageCodes ?st)"
    using Cons.prems(4) by simp
  from Cons.IH [OF 1 2 3 4] show ?case by simp
qed

lemma initialize_inv:
  assumes "pending st = []" and "joins st = []" and "dones (trace st) = []"
    and "calls (trace st) = []" and "loadedLanguages st = Map.empty"
  shows "join_inv f (initialize e (JFun f) st)
    \<and> count_inv (languageCodes st) (initialize e (JFun f) st)
    \<and> outcome_inv e (initialize e (JFun f) st)"
proof (cases "languageCodes st = []")
  case True
  with assms show ?thesis
    by (simp add: initialize_def Let_def join_inv_def count_inv_def outcome_inv_def
        finished_trace expected_calls_def)
next
  case False
  let ?st = "st\<lparr>joins := joins st @
                  [\<lparr>n_items = length (languageCodes st), completed = 0,
                    live = True, callback = JFun f\<rparr>]\<rparr>"
  have 1: "join_inv f ?st"
    using assms False by (simp add: join_inv_def expected_calls_def)
  have 2: "count_inv [] ?st"
    using assms by (simp add: count_inv_def)
  have 3: "outcome_inv e ?st"
    using assms by (simp add: outcome_inv_def)
  have 4: "length ([] :: string list) + length (languageCodes st) = length (languageCodes ?st)"
    by simp
  have "initialize e (JFun f) st = foldl (\<lambda>s c. iterator e 0 c s) ?st (languageCodes st)"
    using False assms(2) by (simp add: initialize_def Let_def)
  with iterate_inv [OF 1 2 3 4] show ?thesis by simp
qed

lemma resolve_inv:
  assumes "join_inv f st" and "count_inv (languageCodes st) st" and "outcome_inv e st"
  shows "join_inv f (resolve e i st)
    \<and> count_inv (languageCodes (resolve e i st)) (resolve e i st)
    \<and> outcome_inv e (resolve e i st)"
proof -
  have j: "join_inv f (resolve e i st)"
  proof (cases "i < length (pending st)")
    case False
    with assms(1) show ?thesis by (simp add: resolve_def)
  next
    case True
    let ?st0 = "st\<lparr>pending := take i (pending st) @ drop (Suc i) (pending st)\<rparr>"
    from assms(2) have "length (dones (trace st)) + length (pending st)
                          = length (languageCodes st)"
      by (rule count_inv_size)
    with True have room: "length (dones (trace ?st0)) < length (languageCodes ?st0)"
      by simp
    from True have "pending st ! i \<in> set (pending st)" by simp
    with assms(3) have tj: "t_join (pending st ! i) = 0"
      unfolding outcome_inv_def by blast
    from assms(1) have "join_inv f ?st0"
      by (simp add: join_inv_def)
    then have "join_inv f (loadLanguage_callback e (pending st ! i) ?st0)"
      using room tj by (rule join_inv_loadLanguage_callback)
    with True show ?thesis by (simp add: resolve_def)
  qed
  have "languageCodes (resolve e i st) = languageCodes st"
    by (simp add: resolve_def)
  with j assms show ?thesis
    by (simp add: count_inv_resolve outcome_inv_resolve)
qed

lemma resolves_inv:
  assumes "join_inv f st" and "count_inv (languageCodes st) st" and "outcome_inv e st"
  shows "join_inv f (run v e (map Resolve is) st)
    \<and> count_inv (languageCodes (run v e (map Resolve is) st)) (run v e (map Resolve is) st)
    \<and> outcome_inv e (run v e (map Resolve is) st)"
  using assms
proof (induction "is" arbitrary: st)
  case Nil
  then show ?case by simp
next
  case (Cons i "is")
  from resolve_inv [OF Cons.prems, of i]
  have "join_inv f (resolve e i st)"
    and "count_inv (languageCodes (resolve e i st)) (resolve e i st)"
    and "outcome_inv e (resolve e i st)"
    by blast+
  from Cons.IH [OF this] show ?case by simp
qed

lemma configure_fresh:
  "pending (configure e options module_loaded) = []"
  "joins (configure e options module_loaded) = []"
  "dones (trace (configure e options module_loaded)) = []"
  "calls (trace (configure e options module_loaded)) = []"
  "loadedLanguages (configure e options module_loaded) = Map.empty"
  by (simp_all add: configure_def module_loaded_def emit_def Let_def)

text \<open>
  Claim C2, as the claim states it, fails: \<^verbatim>\<open>xx\<close> (no plural rule) and \<^verbatim>\<open>de\<close> are
  registered. When \<^verbatim>\<open>initialize\<close> returns, the completion callback (the function 7)
  has been called with the error of \<^verbatim>\<open>xx\<close> while the file read of \<^verbatim>\<open>de\<close> is in flight;
  \<^verbatim>\<open>de\<close> is loaded and done after the callback.
\<close>

theorem callback_before_sibling_resolves:
  "trace (initialize sample_env (JFun (UserFn 7))
            (configure sample_env mixed_options module_loaded)) =
     [Done ''xx'' (Some (NoPluralInformation ''xx'')),
      Logged (CustomLogger (UserFn 2)) (ErrorLoading (NoPluralInformation ''xx'')),
      Called (UserFn 7) (Some (NoPluralInformation ''xx'')),
      Logged (BuiltinLogger ''i18n:info'')
        (LoadingFrom (JStr ''Deutsch'') ''/srv/app/i18n/de/LC_MESSAGES/messages.po'')]
   \<and> map t_code (pending (initialize sample_env (JFun (UserFn 7))
            (configure sample_env mixed_options module_loaded))) = [''de'']
   \<and> trace (run Singleton sample_env [Initialize (JFun (UserFn 7)), Resolve 0]
            (configure sample_env mixed_options module_loaded)) =
     [Done ''xx'' (Some (NoPluralInformation ''xx'')),
      Logged (CustomLogger (UserFn 2)) (ErrorLoading (NoPluralInformation ''xx'')),
      Called (UserFn 7) (Some (NoPluralInformation ''xx'')),
      Logged (BuiltinLogger ''i18n:info'')
        (LoadingFrom (JStr ''Deutsch'') ''/srv/app/i18n/de/LC_MESSAGES/messages.po''),
      Logged (BuiltinLogger ''i18n:info'') (LoadingFinishedFor ''de''),
      Done ''de'' None]"
  by (simp add: model_defs sample_defs Let_def)

text \<open>
  Claim C2, amended. Take \<^verbatim>\<open>configure\<close> (the constructor), \<^verbatim>\<open>initialize(f)\<close> and then
  the answers of any of the file reads, in any order. At every such moment:
  every registered code is done or has its file read in flight (each is attempted);
  the completion callback has been called exactly as is due, that is once with the
  first error as soon as an item has failed (sibling reads may still be in flight),
  else once without error when every item is done, else not yet; only languages that
  load have a loaded locale (one that fails is absent). And once no read is in flight,
  every registered language that loads has its loaded locale, whatever failed beside it,
  and the callback has been called exactly once, with the first error or none.
\<close>

theorem initialize_completion:
  assumes "st = run v e (Initialize (JFun f) # map Resolve is)
                  (configure e options module_loaded)"
  shows "mset (map fst (dones (trace st))) + mset (map t_code (pending st))
           = mset (languageCodes st)
    \<and> calls (trace st) = expected_calls f (length (languageCodes st)) (dones (trace st))
    \<and> (\<forall>c. loadedLanguages st c \<noteq> None \<longrightarrow> loads e st c)
    \<and> (pending st = [] \<longrightarrow>
          (\<forall>c \<in> set (languageCodes st). loads e st c \<longrightarrow> loadedLanguages st c \<noteq> None))
    \<and> (pending st = [] \<longrightarrow> calls (trace st) = [(f, first_error (dones (trace st)))])"
proof -
  let ?st0 = "configure e options module_loaded"
  let ?st1 = "initialize e (JFun f) ?st0"
  have "join_inv f ?st1 \<and> count_inv (languageCodes ?st0) ?st1 \<and> outcome_inv e ?st1"
    by (rule initialize_inv) (rule configure_fresh)+
  then have "join_inv f ?st1" and "count_inv (languageCodes ?st1) ?st1"
    and "outcome_inv e ?st1"
    by simp_all
  from resolves_inv [OF this, of v "is"] assms
  have j: "join_inv f st" and c: "count_inv (languageCodes st) st" and o: "outcome_inv e st"
    by simp_all
  from c have 1: "mset (map fst (dones (trace st))) + mset (map t_code (pending st))
           = mset (languageCodes st)"
    by (simp only: count_inv_def)
  from j have 2: "calls (trace st) =
      expected_calls f (length (languageCodes st)) (dones (trace st))"
    by (simp only: join_inv_def)
  from o have 3: "\<forall>c. loadedLanguages st c \<noteq> None \<longrightarrow> loads e st c"
    unfolding outcome_inv_def by blast
  have 4: "\<forall>c \<in> set (languageCodes st). loads e st c \<longrightarrow> loadedLanguages st c \<noteq> None"
    if idle: "pending st = []"
  proof (intro ballI impI)
    fix c
    assume mem: "c \<in> set (languageCodes st)" and ld: "loads e st c"
    from 1 idle have "mset (map fst (dones (trace st))) = mset (languageCodes st)"
      by simp
    then have "set (map fst (dones (trace st))) = set (languageCodes st)"
      by (rule mset_eq_setD)
    with mem have "c \<in> fst ` set (dones (trace st))"
      by simp
    then obtain p where "p \<in> set (dones (trace st))" and "c = fst p"
      by (rule imageE)
    then have "(c, snd p) \<in> set (dones (trace st))"
      by simp
    then obtain x where x: "(c, x) \<in> set (dones (trace st))" ..
    with o have "(x = None) = loads e st c"
      unfolding outcome_inv_def by blast
    with ld x have "(c, None) \<in> set (dones (trace st))" by simp
    with o show "loadedLanguages st c \<noteq> None"
      unfolding outcome_inv_def by blast
  qed
  have 5: "calls (trace st) = [(f, first_error (dones (trace st)))]"
    if idle: "pending st = []"
  proof -
    from c have "length (dones (trace st)) + length (pending st) = length (languageCodes st)"
      by (rule count_inv_size)
    with idle have "length (languageCodes st) \<le> length (dones (trace st))" by simp
    with 2 show ?thesis
      by (simp add: expected_calls_def split: option.split)
  qed
  from 1 2 3 4 5 show ?thesis by blast
qed

theorem initialize_completion_witness:
  "dones (trace (run Singleton sample_env (Initialize (JFun (UserFn 7)) # map Resolve [0])
       (configure sample_env mixed_options module_loaded))) =
     [(''xx'', Some (NoPluralInformation ''xx'')), (''de'', None)]
   \<and> calls (trace (run Singleton sample_env (Initialize (JFun (UserFn 7)) # map Resolve [0])
       (configure sample_env mixed_options module_loaded))) =
     [(UserFn 7, Some (NoPluralInformation ''xx''))]
   \<and> pending (run Singleton sample_env (Initialize (JFun (UserFn 7)) # map Resolve [0])
       (configure sample_env mixed_options module_loaded)) = []
   \<and> loadedLanguages (run Singleton sample_env (Initialize (JFun (UserFn 7)) # map Resolve [0])
       (configure sample_env mixed_options module_loaded)) = [''de'' \<mapsto> german_locale]"
proof -
  let ?st = "run Singleton sample_env (Initialize (JFun (UserFn 7)) # map Resolve [0])
       (configure sample_env mixed_options module_loaded)"
  have d: "dones (trace ?st) = [(''xx'', Some (NoPluralInformation ''xx'')), (''de'', None)]"
    and p: "pending ?st = []"
    and l: "loadedLanguages ?st = [''de'' \<mapsto> german_locale]"
    by (simp_all add: model_defs sample_defs Let_def)
  from initialize_completion [OF refl, of Singleton sample_env "UserFn 7" "[0]" mixed_options]
  have "pending ?st = [] \<longrightarrow> calls (trace ?st) = [(UserFn 7, first_error (dones (trace ?st)))]"
    by blast
  with p d have "calls (trace ?st) = [(UserFn 7, Some (NoPluralInformation ''xx''))]"
    by simp
  with d p l show ?thesis by blast
qed


end
